theory Spec2Isabelle
  imports Main "HOL-Library.Multiset"
begin

section \<open>Data model\<close>

text \<open>
  The persisted entities of the kanban backend. Identifiers are the opaque string ids of
  the storage layer. Positions are the integer \<open>position\<close> columns; they are modelled as
  unbounded integers. Timestamps (\<open>createdAt\<close>, \<open>updatedAt\<close>) and the Board fields
  description, color and owner play no part in any controller decision and are left out.
\<close>

type_synonym ident = string

datatype TaskStatus = TODO | IN_PROGRESS | DONE

datatype TaskPriority = LOW | MEDIUM | HIGH | URGENT

record board =
  board_id :: ident
  board_name :: string

record column =
  col_id :: ident
  col_name :: string
  col_position :: int
  col_boardId :: ident

record task =
  task_id :: ident
  task_title :: string
  task_description :: "string option"
  task_status :: TaskStatus
  task_priority :: TaskPriority
  task_dueDate :: "string option"
  task_position :: int
  task_columnId :: ident

record db =
  boards :: "board list"
  columns :: "column list"
  tasks :: "task list"

text \<open>\<open>createError(message, statusCode)\<close> and the JSON envelope of a successful reply.\<close>

datatype api_error = ApiError nat string

datatype 'a response = Response nat string "'a option"

section \<open>Storage primitives\<close>

text \<open>
  A table is the list of its rows. The primitives follow the calls of the persistence
  client: the \<open>where\<close> clause is a predicate on rows and the \<open>data\<close> clause a function
  on rows.
\<close>

definition prisma_findUnique :: "('r \<Rightarrow> bool) \<Rightarrow> 'r list \<Rightarrow> 'r option" where
  "prisma_findUnique wh tbl = find wh tbl"

definition prisma_findFirst :: "('r \<Rightarrow> bool) \<Rightarrow> 'r list \<Rightarrow> 'r option" where
  "prisma_findFirst wh tbl = find wh tbl"

text \<open>\<open>findFirst\<close> with \<open>orderBy: { position: 'desc' }\<close>: a row of largest key among the
  rows that satisfy \<open>where\<close>.\<close>

fun max_by :: "('r \<Rightarrow> int) \<Rightarrow> 'r list \<Rightarrow> 'r option" where
  "max_by k [] = None"
| "max_by k (r # rs) =
     (case max_by k rs of
        None \<Rightarrow> Some r
      | Some m \<Rightarrow> if k r < k m then Some m else Some r)"

definition prisma_findFirst_desc :: "('r \<Rightarrow> int) \<Rightarrow> ('r \<Rightarrow> bool) \<Rightarrow> 'r list \<Rightarrow> 'r option" where
  "prisma_findFirst_desc k wh tbl = max_by k (filter wh tbl)"

definition prisma_updateMany :: "('r \<Rightarrow> bool) \<Rightarrow> ('r \<Rightarrow> 'r) \<Rightarrow> 'r list \<Rightarrow> 'r list" where
  "prisma_updateMany wh dat tbl = map (\<lambda>r. if wh r then dat r else r) tbl"

definition prisma_update :: "('r \<Rightarrow> bool) \<Rightarrow> ('r \<Rightarrow> 'r) \<Rightarrow> 'r list \<Rightarrow> 'r list" where
  "prisma_update wh dat tbl = map (\<lambda>r. if wh r then dat r else r) tbl"

definition prisma_delete :: "('r \<Rightarrow> bool) \<Rightarrow> 'r list \<Rightarrow> 'r list" where
  "prisma_delete wh tbl = filter (\<lambda>r. \<not> wh r) tbl"

definition prisma_create :: "'r \<Rightarrow> 'r list \<Rightarrow> 'r list" where
  "prisma_create r tbl = tbl @ [r]"

text \<open>
  Modelled from the spec: the referential action of the Column-to-Task relation. The
  schema file is not part of the sources; the specification says that a Column exclusively
  owns its Tasks and that deleting the owner cascades at the storage layer. Deleting a
  Column row therefore deletes the Task rows that reference it.
\<close>

definition column_delete :: "ident \<Rightarrow> db \<Rightarrow> db" where
  "column_delete cid s =
     s\<lparr>columns := prisma_delete (\<lambda>c. col_id c = cid) (columns s),
       tasks := prisma_delete (\<lambda>t. task_columnId t = cid) (tasks s)\<rparr>"

section \<open>Column controller\<close>

text \<open>
  Every controller takes the state of the store and returns the new state with either the
  error it throws or its reply. The id of a created row is chosen by the storage layer and
  is a parameter (\<open>new_id\<close>) of the creating controllers.
\<close>

definition createColumn ::
  "db \<Rightarrow> ident \<Rightarrow> string \<Rightarrow> ident \<Rightarrow> int option \<Rightarrow> db \<times> (api_error + column response)" where
  "createColumn s new_id name boardId position =
     (case prisma_findUnique (\<lambda>b. board_id b = boardId) (boards s) of
        None \<Rightarrow> (s, Inl (ApiError 404 ''Board not found''))
      | Some board \<Rightarrow>
          let columnPosition =
                (case position of
                   Some p \<Rightarrow> p
                 | None \<Rightarrow>
                     (case prisma_findFirst_desc col_position (\<lambda>c. col_boardId c = boardId) (columns s) of
                        None \<Rightarrow> - 1
                      | Some maxPosition \<Rightarrow> col_position maxPosition) + 1);
              column = \<lparr>col_id = new_id, col_name = name,
                        col_position = columnPosition, col_boardId = boardId\<rparr>
          in (s\<lparr>columns := prisma_create column (columns s)\<rparr>,
              Inr (Response 201 ''Column created successfully'' (Some column))))"

text \<open>\<open>...(name && { name })\<close>: an absent or empty name is not written;
  \<open>...(position !== undefined && { position })\<close>.\<close>

definition updateColumn ::
  "db \<Rightarrow> ident \<Rightarrow> string option \<Rightarrow> int option \<Rightarrow> db \<times> (api_error + column response)" where
  "updateColumn s cid name position =
     (case prisma_findUnique (\<lambda>c. col_id c = cid) (columns s) of
        None \<Rightarrow> (s, Inl (ApiError 404 ''Column not found''))
      | Some existingColumn \<Rightarrow>
          let dat = (\<lambda>c. let c1 = (case name of
                                     Some n \<Rightarrow> if n \<noteq> [] then c\<lparr>col_name := n\<rparr> else c
                                   | None \<Rightarrow> c)
                          in (case position of Some p \<Rightarrow> c1\<lparr>col_position := p\<rparr> | None \<Rightarrow> c1));
              s' = s\<lparr>columns := prisma_update (\<lambda>c. col_id c = cid) dat (columns s)\<rparr>
          in (s', Inr (Response 200 ''Column updated successfully''
                         (prisma_findUnique (\<lambda>c. col_id c = cid) (columns s')))))"

definition deleteColumn :: "db \<Rightarrow> ident \<Rightarrow> db \<times> (api_error + column response)" where
  "deleteColumn s cid =
     (case prisma_findUnique (\<lambda>c. col_id c = cid) (columns s) of
        None \<Rightarrow> (s, Inl (ApiError 404 ''Column not found''))
      | Some existingColumn \<Rightarrow>
          if length (filter (\<lambda>t. task_columnId t = cid) (tasks s)) > 0
          then (s, Inl (ApiError 400
                  ''Cannot delete column with tasks. Please move or delete all tasks first.''))
          else
            let s1 = column_delete cid s;
                s2 = s1\<lparr>columns := prisma_updateMany
                        (\<lambda>c. col_boardId c = col_boardId existingColumn
                              \<and> col_position c > col_position existingColumn)
                        (\<lambda>c. c\<lparr>col_position := col_position c - 1\<rparr>) (columns s1)\<rparr>
            in (s2, Inr (Response 200 ''Column deleted successfully'' None)))"

definition reorderColumn :: "db \<Rightarrow> ident \<Rightarrow> int \<Rightarrow> db \<times> (api_error + column response)" where
  "reorderColumn s cid position =
     (case prisma_findUnique (\<lambda>c. col_id c = cid) (columns s) of
        None \<Rightarrow> (s, Inl (ApiError 404 ''Column not found''))
      | Some existingColumn \<Rightarrow>
          let cols1 =
                (if position > col_position existingColumn then
                   prisma_updateMany
                     (\<lambda>c. col_boardId c = col_boardId existingColumn
                           \<and> col_position c > col_position existingColumn
                           \<and> col_position c \<le> position)
                     (\<lambda>c. c\<lparr>col_position := col_position c - 1\<rparr>) (columns s)
                 else if position < col_position existingColumn then
                   prisma_updateMany
                     (\<lambda>c. col_boardId c = col_boardId existingColumn
                           \<and> col_position c \<ge> position
                           \<and> col_position c < col_position existingColumn)
                     (\<lambda>c. c\<lparr>col_position := col_position c + 1\<rparr>) (columns s)
                 else columns s);
              s' = s\<lparr>columns := prisma_update (\<lambda>c. col_id c = cid)
                                   (\<lambda>c. c\<lparr>col_position := position\<rparr>) cols1\<rparr>
          in (s', Inr (Response 200 ''Column reordered successfully''
                         (prisma_findUnique (\<lambda>c. col_id c = cid) (columns s')))))"

section \<open>Board controller: the column routes nested under a board\<close>

definition board_createColumn ::
  "db \<Rightarrow> ident \<Rightarrow> ident \<Rightarrow> string \<Rightarrow> int option \<Rightarrow> db \<times> (api_error + column response)" where
  "board_createColumn s new_id boardId name position =
     (case prisma_findUnique (\<lambda>b. board_id b = boardId) (boards s) of
        None \<Rightarrow> (s, Inl (ApiError 404 ''Board not found''))
      | Some board \<Rightarrow>
          let columnPosition =
                (case position of
                   Some p \<Rightarrow> p
                 | None \<Rightarrow>
                     (case prisma_findFirst_desc col_position (\<lambda>c. col_boardId c = boardId) (columns s) of
                        Some lastColumn \<Rightarrow> col_position lastColumn + 1
                      | None \<Rightarrow> 0));
              column = \<lparr>col_id = new_id, col_name = name,
                        col_position = columnPosition, col_boardId = boardId\<rparr>
          in (s\<lparr>columns := prisma_create column (columns s)\<rparr>,
              Inr (Response 201 ''Column created successfully'' (Some column))))"

text \<open>\<open>data: { name, position }\<close>: a field that is undefined is not written.\<close>

definition board_updateColumn ::
  "db \<Rightarrow> ident \<Rightarrow> ident \<Rightarrow> string option \<Rightarrow> int option \<Rightarrow> db \<times> (api_error + column response)" where
  "board_updateColumn s boardId columnId name position =
     (case prisma_findFirst (\<lambda>c. col_id c = columnId \<and> col_boardId c = boardId) (columns s) of
        None \<Rightarrow> (s, Inl (ApiError 404 ''Column not found''))
      | Some existingColumn \<Rightarrow>
          let dat = (\<lambda>c. let c1 = (case name of Some n \<Rightarrow> c\<lparr>col_name := n\<rparr> | None \<Rightarrow> c)
                          in (case position of Some p \<Rightarrow> c1\<lparr>col_position := p\<rparr> | None \<Rightarrow> c1));
              s' = s\<lparr>columns := prisma_update (\<lambda>c. col_id c = columnId) dat (columns s)\<rparr>
          in (s', Inr (Response 200 ''Column updated successfully''
                         (prisma_findUnique (\<lambda>c. col_id c = columnId) (columns s')))))"

definition board_deleteColumn ::
  "db \<Rightarrow> ident \<Rightarrow> ident \<Rightarrow> db \<times> (api_error + column response)" where
  "board_deleteColumn s boardId columnId =
     (case prisma_findFirst (\<lambda>c. col_id c = columnId \<and> col_boardId c = boardId) (columns s) of
        None \<Rightarrow> (s, Inl (ApiError 404 ''Column not found''))
      | Some existingColumn \<Rightarrow>
          (column_delete columnId s, Inr (Response 200 ''Column deleted successfully'' None)))"

section \<open>Task controller\<close>

text \<open>The body of a create request; \<open>priority = 'MEDIUM'\<close> and \<open>status = 'TODO'\<close> are the
  defaults of the destructuring. The due date is kept as the string that was sent.\<close>

record CreateTaskRequest =
  ct_title :: string
  ct_description :: "string option"
  ct_columnId :: ident
  ct_priority :: "TaskPriority option"
  ct_status :: "TaskStatus option"
  ct_dueDate :: "string option"
  ct_position :: "int option"

record UpdateTaskRequest =
  ut_title :: "string option"
  ut_description :: "string option"
  ut_columnId :: "ident option"
  ut_priority :: "TaskPriority option"
  ut_status :: "TaskStatus option"
  ut_dueDate :: "string option"
  ut_position :: "int option"

definition createTask ::
  "db \<Rightarrow> ident \<Rightarrow> CreateTaskRequest \<Rightarrow> db \<times> (api_error + task response)" where
  "createTask s new_id req =
     (case prisma_findUnique (\<lambda>c. col_id c = ct_columnId req) (columns s) of
        None \<Rightarrow> (s, Inl (ApiError 404 ''Column not found''))
      | Some column \<Rightarrow>
          let taskPosition =
                (case ct_position req of
                   Some p \<Rightarrow> p
                 | None \<Rightarrow>
                     (case prisma_findFirst_desc task_position
                             (\<lambda>t. task_columnId t = ct_columnId req) (tasks s) of
                        Some lastTask \<Rightarrow> task_position lastTask + 1
                      | None \<Rightarrow> 0));
              task = \<lparr>task_id = new_id, task_title = ct_title req,
                      task_description = ct_description req,
                      task_status = (case ct_status req of Some st \<Rightarrow> st | None \<Rightarrow> TODO),
                      task_priority = (case ct_priority req of Some pr \<Rightarrow> pr | None \<Rightarrow> MEDIUM),
                      task_dueDate = (case ct_dueDate req of
                                        Some d \<Rightarrow> if d \<noteq> [] then Some d else None
                                      | None \<Rightarrow> None),
                      task_position = taskPosition, task_columnId = ct_columnId req\<rparr>
          in (s\<lparr>tasks := prisma_create task (tasks s)\<rparr>,
              Inr (Response 201 ''Task created successfully'' (Some task))))"

text \<open>The \<open>data\<close> of the generic update: every field present in the body is written as
  sent. Integrity of the written \<open>columnId\<close> is left to the storage engine.\<close>

definition apply_update :: "UpdateTaskRequest \<Rightarrow> task \<Rightarrow> task" where
  "apply_update u t =
     (let t1 = (case ut_title u of Some x \<Rightarrow> t\<lparr>task_title := x\<rparr> | None \<Rightarrow> t);
          t2 = (case ut_description u of Some x \<Rightarrow> t1\<lparr>task_description := Some x\<rparr> | None \<Rightarrow> t1);
          t3 = (case ut_columnId u of Some x \<Rightarrow> t2\<lparr>task_columnId := x\<rparr> | None \<Rightarrow> t2);
          t4 = (case ut_priority u of Some x \<Rightarrow> t3\<lparr>task_priority := x\<rparr> | None \<Rightarrow> t3);
          t5 = (case ut_status u of Some x \<Rightarrow> t4\<lparr>task_status := x\<rparr> | None \<Rightarrow> t4);
          t6 = (case ut_dueDate u of Some x \<Rightarrow> t5\<lparr>task_dueDate := Some x\<rparr> | None \<Rightarrow> t5)
      in (case ut_position u of Some x \<Rightarrow> t6\<lparr>task_position := x\<rparr> | None \<Rightarrow> t6))"

definition updateTask ::
  "db \<Rightarrow> ident \<Rightarrow> UpdateTaskRequest \<Rightarrow> db \<times> (api_error + task response)" where
  "updateTask s tid updateData =
     (case prisma_findUnique (\<lambda>t. task_id t = tid) (tasks s) of
        None \<Rightarrow> (s, Inl (ApiError 404 ''Task not found''))
      | Some existingTask \<Rightarrow>
          if (case ut_columnId updateData of
                Some c \<Rightarrow> c \<noteq> [] \<and> c \<noteq> task_columnId existingTask
                          \<and> prisma_findUnique (\<lambda>col. col_id col = c) (columns s) = None
              | None \<Rightarrow> False)
          then (s, Inl (ApiError 404 ''Target column not found''))
          else
            let s' = s\<lparr>tasks := prisma_update (\<lambda>t. task_id t = tid)
                                   (apply_update updateData) (tasks s)\<rparr>
            in (s', Inr (Response 200 ''Task updated successfully''
                           (prisma_findUnique (\<lambda>t. task_id t = tid) (tasks s')))))"

definition moveTask ::
  "db \<Rightarrow> ident \<Rightarrow> ident \<Rightarrow> int \<Rightarrow> db \<times> (api_error + task response)" where
  "moveTask s tid columnId position =
     (case prisma_findUnique (\<lambda>t. task_id t = tid) (tasks s) of
        None \<Rightarrow> (s, Inl (ApiError 404 ''Task not found''))
      | Some existingTask \<Rightarrow>
          (case prisma_findUnique (\<lambda>c. col_id c = columnId) (columns s) of
             None \<Rightarrow> (s, Inl (ApiError 404 ''Target column not found''))
           | Some targetColumn \<Rightarrow>
               let ts1 =
                     (if columnId \<noteq> task_columnId existingTask then
                        prisma_updateMany
                          (\<lambda>t. task_columnId t = columnId \<and> task_position t \<ge> position)
                          (\<lambda>t. t\<lparr>task_position := task_position t + 1\<rparr>)
                          (prisma_updateMany
                             (\<lambda>t. task_columnId t = task_columnId existingTask
                                   \<and> task_position t > task_position existingTask)
                             (\<lambda>t. t\<lparr>task_position := task_position t - 1\<rparr>) (tasks s))
                      else if position > task_position existingTask then
                        prisma_updateMany
                          (\<lambda>t. task_columnId t = columnId
                                \<and> task_position t > task_position existingTask
                                \<and> task_position t \<le> position)
                          (\<lambda>t. t\<lparr>task_position := task_position t - 1\<rparr>) (tasks s)
                      else if position < task_position existingTask then
                        prisma_updateMany
                          (\<lambda>t. task_columnId t = columnId
                                \<and> task_position t \<ge> position
                                \<and> task_position t < task_position existingTask)
                          (\<lambda>t. t\<lparr>task_position := task_position t + 1\<rparr>) (tasks s)
                      else tasks s);
                   s' = s\<lparr>tasks := prisma_update (\<lambda>t. task_id t = tid)
                          (\<lambda>t. t\<lparr>task_columnId := columnId, task_position := position\<rparr>) ts1\<rparr>
               in (s', Inr (Response 200 ''Task moved successfully''
                              (prisma_findUnique (\<lambda>t. task_id t = tid) (tasks s'))))))"

definition deleteTask :: "db \<Rightarrow> ident \<Rightarrow> db \<times> (api_error + task response)" where
  "deleteTask s tid =
     (case prisma_findUnique (\<lambda>t. task_id t = tid) (tasks s) of
        None \<Rightarrow> (s, Inl (ApiError 404 ''Task not found''))
      | Some existingTask \<Rightarrow>
          let ts1 = prisma_delete (\<lambda>t. task_id t = tid) (tasks s);
              s' = s\<lparr>tasks := prisma_updateMany
                      (\<lambda>t. task_columnId t = task_columnId existingTask
                            \<and> task_position t > task_position existingTask)
                      (\<lambda>t. t\<lparr>task_position := task_position t - 1\<rparr>) ts1\<rparr>
          in (s', Inr (Response 200 ''Task deleted successfully'' None)))"

section \<open>Positions under a parent\<close>

text \<open>The multiset of the positions of the Columns of a Board, and of the Tasks of a
  Column; a multiset of positions is contiguous when it is \<open>{0, ..., count - 1}\<close>, each
  value once.\<close>

definition column_positions :: "db \<Rightarrow> ident \<Rightarrow> int multiset" where
  "column_positions s b = mset (map col_position (filter (\<lambda>c. col_boardId c = b) (columns s)))"

definition task_positions :: "db \<Rightarrow> ident \<Rightarrow> int multiset" where
  "task_positions s c = mset (map task_position (filter (\<lambda>t. task_columnId t = c) (tasks s)))"

definition contiguous :: "int multiset \<Rightarrow> bool" where
  "contiguous M \<longleftrightarrow> M = mset (map int [0..<size M])"

text \<open>Primary keys are unique.\<close>

definition wf_db :: "db \<Rightarrow> bool" where
  "wf_db s \<longleftrightarrow> distinct (map col_id (columns s)) \<and> distinct (map task_id (tasks s))"

section \<open>The position shifts as the specification words them\<close>

text \<open>
  The specification describes the shifts as three computations on a sibling's position:
  \<open>computeRemoveShift\<close> decrements every position greater than the removed one; the
  insertion half of a cross-parent \<open>computeMoveShift\<close> increments every position from
  the target on; the same-parent \<open>computeMoveShift\<close> decrements the positions in
  \<open>(from, to]\<close> when moving up the sequence and increments those in \<open>[to, from)\<close>
  when moving down. They are stated here after the specification, to compare the
  controllers with.
\<close>

definition computeRemoveShift :: "int \<Rightarrow> int \<Rightarrow> int" where
  "computeRemoveShift removedPosition p = (if p > removedPosition then p - 1 else p)"

definition computeInsertShift :: "int \<Rightarrow> int \<Rightarrow> int" where
  "computeInsertShift toPosition p = (if p \<ge> toPosition then p + 1 else p)"

definition computeMoveShift :: "int \<Rightarrow> int \<Rightarrow> int \<Rightarrow> int" where
  "computeMoveShift fromPosition toPosition p =
     (if toPosition > fromPosition \<and> fromPosition < p \<and> p \<le> toPosition then p - 1
      else if toPosition < fromPosition \<and> toPosition \<le> p \<and> p < fromPosition then p + 1
      else p)"

section \<open>Sequences of operations\<close>

text \<open>
  The operations that create a Column or Task without an explicit position, reorder a
  Column, move a Task, and delete a Task or (through the column controller) a Column.
\<close>

datatype operation =
    CreateColumn ident string ident
  | BoardCreateColumn ident ident string
  | ReorderColumn ident int
  | DeleteColumn ident
  | CreateTask ident CreateTaskRequest
  | MoveTask ident ident int
  | DeleteTask ident





text \<open>The contiguity invariant: unique primary keys, and contiguous positions under every
  Board that has Columns and under every Column that has Tasks.\<close>

definition contiguity_invariant :: "db \<Rightarrow> bool" where
  "contiguity_invariant s \<longleftrightarrow>
     wf_db s \<and>
     list_all (\<lambda>b. contiguous (column_positions s b)) (map col_boardId (columns s)) \<and>
     list_all (\<lambda>c. contiguous (task_positions s c)) (map task_columnId (tasks s))"

section \<open>Authentication: data and environment\<close>

text \<open>
  The User and MagicLink tables, the process environment and the clock. Times are
  milliseconds since the epoch. A signed token is kept as the data it was signed from.
\<close>

record user =
  user_id :: ident
  user_email :: string
  user_name :: "string option"

record magic_link =
  ml_id :: ident
  ml_token :: string
  ml_email :: string
  ml_userId :: "ident option"
  ml_expiresAt :: int
  ml_usedAt :: "int option"

record auth_db =
  users :: "user list"
  magicLinks :: "magic_link list"

record env =
  JWT_SECRET :: "string option"
  NODE_ENV :: "string option"
  now :: int
  new_user_id :: ident

datatype jwt = Signed ident string string

text \<open>
  The strings of a request body are JavaScript strings: sequences of UTF-16 code units.
  A code unit is a natural number (below 65536; nothing in the model needs the bound, so
  every JavaScript string is a value of the type). \<open>js\<close> is the string of an ASCII
  literal.
\<close>

type_synonym jsstring = "nat list"

definition js :: "string \<Rightarrow> jsstring" where
  "js s = map of_char s"

text \<open>A thrown error: \<open>createError(message, statusCode)\<close> carries a status code, a plain
  \<open>new Error(message)\<close> does not, and a known request error of the persistence client
  carries the client's error code.\<close>

datatype exn = Exn "nat option" string | PrismaClientKnownRequestError string string

definition createError :: "string \<Rightarrow> nat \<Rightarrow> exn" where
  "createError msg statusCode = Exn (Some statusCode) msg"

definition exn_message :: "exn \<Rightarrow> string" where
  "exn_message e = (case e of Exn c m \<Rightarrow> m | PrismaClientKnownRequestError code m \<Rightarrow> m)"

text \<open>
  The error handler. An error with a truthy status code is answered with its code and
  message; a known request error of the persistence client by its code; anything else
  with 500 \<open>Internal Server Error\<close>. In production every 500 is answered with the
  message \<open>Something went wrong\<close>. (The branches for validation and cast errors are left
  out: no controller modelled here raises one.)
\<close>

definition errorHandler :: "env \<Rightarrow> exn \<Rightarrow> api_error" where
  "errorHandler e error =
     (let (statusCode, message) =
            (case error of
               Exn (Some c) m \<Rightarrow>
                 if c \<noteq> 0 then (c, m) else (500, ''Internal Server Error'')
             | Exn None m \<Rightarrow> (500, ''Internal Server Error'')
             | PrismaClientKnownRequestError code m \<Rightarrow>
                 if code = ''P2002'' then (409, ''A record with this data already exists'')
                 else if code = ''P2025'' then (404, ''Record not found'')
                 else if code = ''P2003'' then (400, ''Invalid foreign key constraint'')
                 else (400, ''Database operation failed''))
      in if NODE_ENV e = Some ''production'' \<and> statusCode = 500
         then ApiError statusCode ''Something went wrong''
         else ApiError statusCode message)"

text \<open>\<open>!x\<close> on an optional string: absent or empty.\<close>

definition falsy :: "'a list option \<Rightarrow> bool" where
  "falsy x = (case x of None \<Rightarrow> True | Some v \<Rightarrow> v = [])"

text \<open>\<open>String.prototype.includes\<close>.\<close>

fun starts_with :: "string \<Rightarrow> string \<Rightarrow> bool" where
  "starts_with s [] = True"
| "starts_with [] (b # bs) = False"
| "starts_with (a # as) (b # bs) = (a = b \<and> starts_with as bs)"

fun str_includes :: "string \<Rightarrow> string \<Rightarrow> bool" where
  "str_includes [] sub = (sub = [])"
| "str_includes (c # cs) sub = (starts_with (c # cs) sub \<or> str_includes cs sub)"

text \<open>
  The regular expression \<open>/^[^\s@]+@[^\s@]+\.[^\s@]+$/\<close>, matched code unit by code unit
  (it has no \<open>u\<close> flag). \<open>\s\<close> is tab, line feed, vertical tab, form feed, carriage
  return, space, U+00A0, U+1680, U+2000 to U+200A, U+2028, U+2029, U+202F, U+205F,
  U+3000 and U+FEFF; \<open>@\<close> is 64 and the full stop 46.
\<close>

definition is_space :: "nat \<Rightarrow> bool" where
  "is_space u =
     (u \<in> {9, 10, 11, 12, 13, 32, 160, 5760, 8232, 8233, 8239, 8287, 12288, 65279}
      \<or> (8192 \<le> u \<and> u \<le> 8202))"

definition not_space_or_at :: "nat \<Rightarrow> bool" where
  "not_space_or_at u = (\<not> is_space u \<and> u \<noteq> 64)"

fun match_plus :: "(nat \<Rightarrow> bool) \<Rightarrow> (jsstring \<Rightarrow> bool) \<Rightarrow> jsstring \<Rightarrow> bool" where
  "match_plus P k [] = False"
| "match_plus P k (c # cs) = (P c \<and> (k cs \<or> match_plus P k cs))"

definition match_char :: "nat \<Rightarrow> (jsstring \<Rightarrow> bool) \<Rightarrow> jsstring \<Rightarrow> bool" where
  "match_char a k s = (case s of [] \<Rightarrow> False | c # cs \<Rightarrow> c = a \<and> k cs)"

definition match_end :: "jsstring \<Rightarrow> bool" where
  "match_end s = (s = [])"

definition emailRegex_test :: "jsstring \<Rightarrow> bool" where
  "emailRegex_test s =
     match_plus not_space_or_at
       (match_char 64
         (match_plus not_space_or_at
           (match_char 46
             (match_plus not_space_or_at match_end)))) s"

definition HARDCODED_EMAIL :: string where
  "HARDCODED_EMAIL = ''admin@kanban.com''"

definition HARDCODED_PASSWORD :: string where
  "HARDCODED_PASSWORD = ''admin123''"

definition generateJWT :: "env \<Rightarrow> ident \<Rightarrow> string \<Rightarrow> exn + jwt" where
  "generateJWT e userId email =
     (if falsy (JWT_SECRET e)
      then Inl (Exn None ''JWT_SECRET is not defined in environment variables'')
      else Inr (Signed userId email (the (JWT_SECRET e))))"

text \<open>Creating a User: the email is a unique key (it is looked up with \<open>findUnique\<close>), and
  the storage layer rejects a second row with the same email (error code P2002; the
  message is abridged).\<close>

definition user_create :: "user \<Rightarrow> auth_db \<Rightarrow> exn + auth_db" where
  "user_create u s =
     (if prisma_findUnique (\<lambda>x. user_email x = user_email u) (users s) \<noteq> None
      then Inl (PrismaClientKnownRequestError ''P2002''
                  ''Unique constraint failed on the fields: (email)'')
      else Inr (s\<lparr>users := prisma_create u (users s)\<rparr>))"

section \<open>Authentication controller: login\<close>

text \<open>
  \<open>String.prototype.toLowerCase\<close> is a builtin of the language: it lower-cases by the
  Unicode tables, which are not part of the sources. The login takes it as its first
  parameter, so that what is proved of the login holds for the builtin, whatever its
  tables say.
\<close>

definition login_try ::
  "(jsstring \<Rightarrow> jsstring) \<Rightarrow> env \<Rightarrow> auth_db \<Rightarrow> jsstring \<Rightarrow> jsstring
     \<Rightarrow> auth_db \<times> (exn + (user \<times> jwt) response)" where
  "login_try toLowerCase e s email password =
     (if toLowerCase email \<noteq> toLowerCase (js HARDCODED_EMAIL) \<or> password \<noteq> js HARDCODED_PASSWORD
      then (s, Inl (createError ''Invalid email or password'' 401))
      else
        (case (case prisma_findUnique (\<lambda>u. user_email u = HARDCODED_EMAIL) (users s) of
                 Some u \<Rightarrow> Inr (s, u)
               | None \<Rightarrow>
                   (let u = \<lparr>user_id = new_user_id e, user_email = HARDCODED_EMAIL,
                             user_name = Some ''Admin User''\<rparr>
                    in case user_create u s of Inl x \<Rightarrow> Inl x | Inr s1 \<Rightarrow> Inr (s1, u))) of
           Inl x \<Rightarrow> (s, Inl x)
         | Inr (s1, user) \<Rightarrow>
             (case generateJWT e (user_id user) (user_email user) of
                Inl x \<Rightarrow> (s1, Inl x)
              | Inr jwtToken \<Rightarrow>
                  (s1, Inr (Response 200 ''Login successful'' (Some (user, jwtToken)))))))"

text \<open>The controller with its \<open>catch\<close>; what it throws is answered by the error handler.\<close>

definition login ::
  "(jsstring \<Rightarrow> jsstring) \<Rightarrow> env \<Rightarrow> auth_db \<Rightarrow> jsstring option \<Rightarrow> jsstring option
     \<Rightarrow> auth_db \<times> (api_error + (user \<times> jwt) response)" where
  "login toLowerCase e s email password =
     (if falsy email \<or> falsy password
      then (s, Inl (errorHandler e (createError ''Email and password are required'' 400)))
      else if \<not> emailRegex_test (the email)
      then (s, Inl (errorHandler e (createError ''Invalid email format'' 400)))
      else
        (case login_try toLowerCase e s (the email) (the password) of
           (s1, Inr reply) \<Rightarrow> (s1, Inr reply)
         | (s1, Inl error) \<Rightarrow>
             if str_includes (exn_message error) ''Invalid email or password''
             then (s1, Inl (errorHandler e error))
             else (s1, Inl (errorHandler e (createError ''Failed to login'' 500)))))"

section \<open>Authentication controller: magic links\<close>

definition verify_try :: "env \<Rightarrow> auth_db \<Rightarrow> string \<Rightarrow> auth_db \<times> (exn + (user \<times> jwt) response)" where
  "verify_try e s token =
     (case prisma_findUnique (\<lambda>m. ml_token m = token) (magicLinks s) of
        None \<Rightarrow> (s, Inl (createError ''Invalid or expired magic link'' 401))
      | Some magicLink \<Rightarrow>
          if now e > ml_expiresAt magicLink
          then (s\<lparr>magicLinks := prisma_delete (\<lambda>m. ml_id m = ml_id magicLink) (magicLinks s)\<rparr>,
                Inl (createError ''Magic link has expired'' 401))
          else if ml_usedAt magicLink \<noteq> None
          then (s, Inl (createError ''Magic link has already been used'' 401))
          else
            (case (case (case ml_userId magicLink of
                           None \<Rightarrow> None
                         | Some uid \<Rightarrow> prisma_findUnique (\<lambda>u. user_id u = uid) (users s)) of
                     Some u \<Rightarrow> Inr (s, u)
                   | None \<Rightarrow>
                       (let u = \<lparr>user_id = new_user_id e, user_email = ml_email magicLink,
                                 user_name = None\<rparr>
                        in case user_create u s of Inl x \<Rightarrow> Inl x | Inr s1 \<Rightarrow> Inr (s1, u))) of
               Inl x \<Rightarrow> (s, Inl x)
             | Inr (s1, user) \<Rightarrow>
                 (let s2 = s1\<lparr>magicLinks := prisma_update (\<lambda>m. ml_id m = ml_id magicLink)
                                 (\<lambda>m. m\<lparr>ml_usedAt := Some (now e)\<rparr>) (magicLinks s1)\<rparr>
                  in case generateJWT e (user_id user) (user_email user) of
                       Inl x \<Rightarrow> (s2, Inl x)
                     | Inr jwtToken \<Rightarrow>
                         (s2, Inr (Response 200 ''Authentication successful''
                                     (Some (user, jwtToken)))))))"

definition verifyMagicLink ::
  "env \<Rightarrow> auth_db \<Rightarrow> string option \<Rightarrow> auth_db \<times> (api_error + (user \<times> jwt) response)" where
  "verifyMagicLink e s token =
     (if falsy token
      then (s, Inl (errorHandler e (createError ''Token is required'' 400)))
      else
        (case verify_try e s (the token) of
           (s1, Inr reply) \<Rightarrow> (s1, Inr reply)
         | (s1, Inl error) \<Rightarrow>
             if str_includes (exn_message error) ''expired'' \<or> str_includes (exn_message error) ''used''
             then (s1, Inl (errorHandler e error))
             else (s1, Inl (errorHandler e (createError ''Failed to verify magic link'' 500)))))"

text \<open>Equality of two strings up to the case of the ASCII letters: the code units 65 to
  90 are the letters A to Z, and 32 above each is its small letter.\<close>

definition ascii_lower :: "nat \<Rightarrow> nat" where
  "ascii_lower u = (if 65 \<le> u \<and> u \<le> 90 then u + 32 else u)"

definition equal_ignoring_ascii_case :: "jsstring \<Rightarrow> jsstring \<Rightarrow> bool" where
  "equal_ignoring_ascii_case a b = (map ascii_lower a = map ascii_lower b)"

text \<open>
  A function that agrees with \<open>String.prototype.toLowerCase\<close> on the strings of the
  examples, those made of ASCII characters and of the Kelvin sign U+212A (code unit
  8490), which the builtin lower-cases to the letter k (code unit 107). It is used only
  at such strings.
\<close>

definition toLowerCase_sample :: "jsstring \<Rightarrow> jsstring" where
  "toLowerCase_sample t = map (\<lambda>u. if u = 8490 then 107 else ascii_lower u) t"

definition kelvin_email :: jsstring where
  "kelvin_email = js ''admin@'' @ [8490] @ js ''anban.com''"

section \<open>An example store\<close>

text \<open>
  One Board with four Columns at positions 0 to 3; the first Column holds three Tasks at
  positions 0 to 2, the second two Tasks at positions 0 and 1, the others none.
\<close>

definition example_task :: "ident \<Rightarrow> ident \<Rightarrow> int \<Rightarrow> task" where
  "example_task tid cid p =
     \<lparr>task_id = tid, task_title = ''task'', task_description = None, task_status = TODO,
      task_priority = MEDIUM, task_dueDate = None, task_position = p, task_columnId = cid\<rparr>"

definition example_db :: db where
  "example_db =
     \<lparr>boards = [\<lparr>board_id = ''b1'', board_name = ''Board''\<rparr>],
      columns =
        [\<lparr>col_id = ''c1'', col_name = ''To Do'', col_position = 0, col_boardId = ''b1''\<rparr>,
         \<lparr>col_id = ''c2'', col_name = ''In Progress'', col_position = 1, col_boardId = ''b1''\<rparr>,
         \<lparr>col_id = ''c3'', col_name = ''Done'', col_position = 2, col_boardId = ''b1''\<rparr>,
         \<lparr>col_id = ''c4'', col_name = ''Archive'', col_position = 3, col_boardId = ''b1''\<rparr>],
      tasks =
        [example_task ''t1'' ''c1'' 0, example_task ''t2'' ''c1'' 1, example_task ''t3'' ''c1'' 2,
         example_task ''t4'' ''c2'' 0, example_task ''t5'' ''c2'' 1]\<rparr>"

definition example_request :: CreateTaskRequest where
  "example_request =
     \<lparr>ct_title = ''new'', ct_description = None, ct_columnId = ''c2'', ct_priority = None,
      ct_status = None, ct_dueDate = None, ct_position = None\<rparr>"

text \<open>An environment with a signing secret at time 500, the same at time 2000, one
  without a signing secret, and one without a signing secret in production; a store
  with one unused magic link that expires at time 1000, and the same store with the
  link used at time 5.\<close>

definition example_env :: env where
  "example_env =
     \<lparr>JWT_SECRET = Some ''secret'', NODE_ENV = None, now = 500, new_user_id = ''u1''\<rparr>"

definition example_link :: magic_link where
  "example_link =
     \<lparr>ml_id = ''m1'', ml_token = ''abc'', ml_email = ''ann@example.org'', ml_userId = None,
      ml_expiresAt = 1000, ml_usedAt = None\<rparr>"

definition example_auth :: auth_db where
  "example_auth = \<lparr>users = [], magicLinks = [example_link]\<rparr>"

definition late_env :: env where
  "late_env =
     \<lparr>JWT_SECRET = Some ''secret'', NODE_ENV = None, now = 2000, new_user_id = ''u1''\<rparr>"

definition unconfigured_env :: env where
  "unconfigured_env =
     \<lparr>JWT_SECRET = None, NODE_ENV = None, now = 500, new_user_id = ''u1''\<rparr>"

definition production_env :: env where
  "production_env =
     \<lparr>JWT_SECRET = None, NODE_ENV = Some ''production'', now = 500, new_user_id = ''u1''\<rparr>"

definition used_auth :: auth_db where
  "used_auth = \<lparr>users = [], magicLinks = [example_link\<lparr>ml_usedAt := Some 5\<rparr>]\<rparr>"

section \<open>Contiguous multisets of positions\<close>

lemma mset_upt_int: "mset (map int [0..<n]) = mset_set {0..<int n}"
proof -
  have "mset (map int [0..<n]) = image_mset int (mset_set {0..<n})"
    by simp
  also have "\<dots> = mset_set (int ` {0..<n})"
    by (rule image_mset_mset_set) simp
  also have "int ` {0..<n} = {0..<int n}"
    by (simp add: image_int_atLeastLessThan)
  finally show ?thesis .
qed

lemma contiguousD: "contiguous M \<Longrightarrow> M = mset_set {0..<int (size M)}"
  unfolding contiguous_def mset_upt_int .

lemma contiguousI: "M = mset_set {0..<n} \<Longrightarrow> contiguous M"
proof -
  assume M: "M = mset_set {0..<n}"
  have "int (size (mset_set {0..<n})) = (if n < 0 then 0 else n)" by simp
  then have "{0..<int (size (mset_set {0..<n}))} = {0..<n}" by auto
  then show ?thesis unfolding contiguous_def mset_upt_int M by simp
qed


lemma contiguous_set: "contiguous M \<Longrightarrow> set_mset M = {0..<int (size M)}"
proof -
  assume c: "contiguous M"
  have "set_mset M = set_mset (mset_set {0..<int (size M)})"
    by (rule arg_cong[OF contiguousD[OF c]])
  then show ?thesis by simp
qed

lemma contiguous_member: "contiguous M \<Longrightarrow> p \<in># M \<Longrightarrow> 0 \<le> p \<and> p < int (size M)"
  using contiguous_set[of M] by auto




lemma contiguous_remove:
  assumes "contiguous (add_mset a R)"
  shows "contiguous (image_mset (\<lambda>p. if p > a then p - 1 else p) R)"
proof -
  define n where "n = int (size R)"
  let ?g = "\<lambda>p. if p > a then p - 1 else p"
  have sz: "int (size (add_mset a R)) = n + 1" by (simp add: n_def)
  have M: "add_mset a R = mset_set {0..<n + 1}"
    using contiguousD[OF assms] unfolding sz .
  have "a \<in># mset_set {0..<n + 1}" unfolding M[symmetric] by simp
  then have a: "0 \<le> a \<and> a < n + 1"
    by (simp split: if_splits add: count_mset_set')
  have "R = add_mset a R - {#a#}" by simp
  also have "\<dots> = mset_set ({0..<n + 1} - {a})"
    unfolding M using a by (simp add: mset_set_Diff)
  finally have R: "R = mset_set ({0..<n + 1} - {a})" .
  have inj: "inj_on ?g ({0..<n + 1} - {a})"
    by (auto simp: inj_on_def split: if_splits)
  have img: "?g ` ({0..<n + 1} - {a}) = {0..<n}"
  proof (intro set_eqI iffI)
    fix x assume "x \<in> ?g ` ({0..<n + 1} - {a})"
    then show "x \<in> {0..<n}" using a by (auto split: if_splits)
  next
    fix x assume x: "x \<in> {0..<n}"
    show "x \<in> ?g ` ({0..<n + 1} - {a})"
    proof (cases "x < a")
      case True
      then have "x = ?g x" "x \<in> {0..<n + 1} - {a}" using x by auto
      then show ?thesis by (intro rev_image_eqI[where x = x])
    next
      case False
      then have "x = ?g (x + 1)" "x + 1 \<in> {0..<n + 1} - {a}" using x by auto
      then show ?thesis by (intro rev_image_eqI[where x = "x + 1"])
    qed
  qed
  have "image_mset ?g R = mset_set (?g ` ({0..<n + 1} - {a}))"
    unfolding R by (rule image_mset_mset_set[OF inj])
  then have "image_mset ?g R = mset_set {0..<n}"
    unfolding img .
  then show ?thesis by (rule contiguousI)
qed




lemma find_split:
  "distinct (map rid T) \<Longrightarrow> find (\<lambda>r. rid r = i) T = Some t \<Longrightarrow>
     mset T = add_mset t (mset (filter (\<lambda>r. rid r \<noteq> i) T))"
proof (induction T)
  case Nil
  then show ?case by simp
next
  case (Cons r T)
  show ?case
  proof (cases "rid r = i")
    case True
    with Cons.prems have "r = t" by simp
    moreover from True Cons.prems have "\<forall>x\<in>set T. rid x \<noteq> i" by (auto simp: image_iff)
    then have "filter (\<lambda>r. rid r \<noteq> i) T = T" by (simp add: filter_id_conv)
    ultimately show ?thesis using True by simp
  next
    case False
    with Cons show ?thesis by simp
  qed
qed

lemma find_SomeD: "find P xs = Some x \<Longrightarrow> P x \<and> x \<in> set xs"
  by (induction xs) (auto split: if_splits)

lemma max_by_None: "max_by k xs = None \<longleftrightarrow> xs = []"
  by (induction xs) (auto split: option.splits)

lemma max_by_Some: "max_by k xs = Some m \<Longrightarrow> m \<in> set xs \<and> (\<forall>x\<in>set xs. k x \<le> k m)"
proof (induction xs arbitrary: m)
  case Nil
  then show ?case by simp
next
  case (Cons r rs)
  show ?case
  proof (cases "max_by k rs")
    case None
    then have "rs = []" by (simp add: max_by_None)
    with Cons.prems show ?thesis by simp
  next
    case (Some m')
    from Cons.IH[OF Some] Cons.prems Some show ?thesis
      by (auto split: if_splits)
  qed
qed

lemma contiguous_max:
  assumes "contiguous (mset (map k xs))" "max_by k xs = Some m"
  shows "k m + 1 = int (length xs)"
proof -
  from max_by_Some[OF assms(2)] have m: "m \<in> set xs" "\<forall>x\<in>set xs. k x \<le> k m" by auto
  have s: "set (map k xs) = {0..<int (length xs)}"
    using contiguous_set[OF assms(1)] by simp
  from m(1) have "k m \<in> set (map k xs)" by simp
  then have u: "k m < int (length xs)" unfolding s by simp
  from m(1) have "length xs > 0" by auto
  then have "int (length xs) - 1 \<in> set (map k xs)" unfolding s by simp
  then obtain x where "x \<in> set xs" "k x = int (length xs) - 1" by auto
  with m(2) have "int (length xs) - 1 \<le> k m" by metis
  with u show ?thesis by simp
qed


section \<open>Positions of the rows of a table\<close>

lemma positions_map:
  assumes "\<And>r. r \<in> set T \<Longrightarrow> par (G r) = par r"
    and "\<And>r. r \<in> set T \<Longrightarrow> par r = X \<Longrightarrow> pos (G r) = h (pos r)"
  shows "mset (map pos (filter (\<lambda>r. par r = X) (map G T)))
         = image_mset h (mset (map pos (filter (\<lambda>r. par r = X) T)))"
  using assms by (induction T) auto

lemma positions_split:
  assumes "distinct (map rid T)" "find (\<lambda>r. rid r = i) T = Some t"
  shows "mset (map pos (filter (\<lambda>r. par r = X) T))
         = (if par t = X then {#pos t#} else {#})
           + mset (map pos (filter (\<lambda>r. par r = X) (filter (\<lambda>r. rid r \<noteq> i) T)))"
proof -
  let ?R = "filter (\<lambda>r. rid r \<noteq> i) T"
  have "mset (map pos (filter (\<lambda>r. par r = X) T))
        = image_mset pos (filter_mset (\<lambda>r. par r = X) (mset T))"
    by (simp only: mset_map mset_filter)
  also have "\<dots> = image_mset pos (filter_mset (\<lambda>r. par r = X) (add_mset t (mset ?R)))"
    by (subst find_split[OF assms]) (rule refl)
  also have "\<dots> = (if par t = X then {#pos t#} else {#})
                    + image_mset pos (filter_mset (\<lambda>r. par r = X) (mset ?R))"
    by (cases "par t = X") simp_all
  also have "image_mset pos (filter_mset (\<lambda>r. par r = X) (mset ?R))
             = mset (map pos (filter (\<lambda>r. par r = X) ?R))"
    by (simp only: mset_map mset_filter)
  finally show ?thesis .
qed


lemma find_unique_row:
  "distinct (map rid T) \<Longrightarrow> find (\<lambda>r. rid r = i) T = Some t \<Longrightarrow> r \<in> set T \<Longrightarrow> rid r = i \<Longrightarrow> r = t"
  by (induction T) (auto split: if_splits simp: image_iff)


section \<open>The state after a move or a delete\<close>

lemma reorderColumn_state:
  assumes "prisma_findUnique (\<lambda>c. col_id c = cid) (columns s) = Some c"
  shows "fst (reorderColumn s cid p) =
           s\<lparr>columns := map (\<lambda>r. if col_id r = cid then r\<lparr>col_position := p\<rparr>
                                 else if col_boardId r = col_boardId c
                                 then r\<lparr>col_position := computeMoveShift (col_position c) p (col_position r)\<rparr>
                                 else r) (columns s)\<rparr>"
  using assms
  by (auto simp: reorderColumn_def Let_def prisma_updateMany_def prisma_update_def
      computeMoveShift_def intro!: arg_cong[where f = "\<lambda>x. s\<lparr>columns := x\<rparr>"])

lemma moveTask_same_state:
  assumes "prisma_findUnique (\<lambda>t. task_id t = tid) (tasks s) = Some t"
    and "prisma_findUnique (\<lambda>c. col_id c = task_columnId t) (columns s) = Some col"
  shows "fst (moveTask s tid (task_columnId t) p) =
           s\<lparr>tasks := map (\<lambda>r. if task_id r = tid
                               then r\<lparr>task_columnId := task_columnId t, task_position := p\<rparr>
                               else if task_columnId r = task_columnId t
                               then r\<lparr>task_position := computeMoveShift (task_position t) p (task_position r)\<rparr>
                               else r) (tasks s)\<rparr>"
  using assms
  by (auto simp: moveTask_def Let_def prisma_updateMany_def prisma_update_def
      computeMoveShift_def intro!: arg_cong[where f = "\<lambda>x. s\<lparr>tasks := x\<rparr>"])

lemma moveTask_cross_state:
  assumes "prisma_findUnique (\<lambda>t. task_id t = tid) (tasks s) = Some t"
    and "prisma_findUnique (\<lambda>c. col_id c = columnId) (columns s) = Some col"
    and "columnId \<noteq> task_columnId t"
  shows "fst (moveTask s tid columnId p) =
           s\<lparr>tasks := map (\<lambda>r. if task_id r = tid then r\<lparr>task_columnId := columnId, task_position := p\<rparr>
                               else if task_columnId r = task_columnId t
                               then r\<lparr>task_position := computeRemoveShift (task_position t) (task_position r)\<rparr>
                               else if task_columnId r = columnId
                               then r\<lparr>task_position := computeInsertShift p (task_position r)\<rparr>
                               else r) (tasks s)\<rparr>"
  using assms
  by (auto simp: moveTask_def Let_def prisma_updateMany_def prisma_update_def
      computeRemoveShift_def computeInsertShift_def intro!: arg_cong[where f = "\<lambda>x. s\<lparr>tasks := x\<rparr>"])

lemma deleteTask_state:
  assumes "prisma_findUnique (\<lambda>t. task_id t = tid) (tasks s) = Some t"
  shows "fst (deleteTask s tid) =
           s\<lparr>tasks := map (\<lambda>r. if task_columnId r = task_columnId t
                               then r\<lparr>task_position := computeRemoveShift (task_position t) (task_position r)\<rparr>
                               else r) (filter (\<lambda>r. task_id r \<noteq> tid) (tasks s))\<rparr>"
  using assms
  by (auto simp: deleteTask_def Let_def prisma_updateMany_def prisma_delete_def
      computeRemoveShift_def intro!: arg_cong[where f = "\<lambda>x. s\<lparr>tasks := x\<rparr>"])

lemma deleteColumn_state:
  assumes "prisma_findUnique (\<lambda>c. col_id c = cid) (columns s) = Some c"
    and "filter (\<lambda>t. task_columnId t = cid) (tasks s) = []"
  shows "fst (deleteColumn s cid) =
           s\<lparr>columns := map (\<lambda>r. if col_boardId r = col_boardId c
                               then r\<lparr>col_position := computeRemoveShift (col_position c) (col_position r)\<rparr>
                               else r) (filter (\<lambda>r. col_id r \<noteq> cid) (columns s))\<rparr>"
proof -
  from assms(2) have "filter (\<lambda>t. task_columnId t \<noteq> cid) (tasks s) = tasks s"
    by (simp add: filter_empty_conv filter_id_conv)
  with assms show ?thesis
    by (auto simp: deleteColumn_def Let_def prisma_updateMany_def prisma_delete_def column_delete_def
      computeRemoveShift_def intro!: arg_cong[where f = "\<lambda>x. s\<lparr>columns := x\<rparr>"])
qed

section \<open>Contiguity of a table after a shift\<close>

lemma contiguous_removeShift:
  "contiguous (add_mset a R) \<Longrightarrow> contiguous (image_mset (computeRemoveShift a) R)"
proof -
  have "computeRemoveShift a = (\<lambda>p. if p > a then p - 1 else p)"
    by (simp add: fun_eq_iff computeRemoveShift_def)
  then show "contiguous (add_mset a R) \<Longrightarrow> ?thesis"
    by (simp only: contiguous_remove)
qed



lemma length_filter_size: "length (filter P T) = size (filter_mset P (mset T))"
  by (simp only: mset_filter[symmetric] size_mset)


lemma table_remove:
  assumes d: "distinct (map rid T)" and f: "find (\<lambda>r. rid r = i) T = Some t"
    and G: "\<And>r. r \<in> set T \<Longrightarrow> rid r \<noteq> i \<Longrightarrow>
              par (G r) = par r \<and>
              pos (G r) = (if par r = par t then computeRemoveShift (pos t) (pos r) else pos r)"
    and c: "contiguous (mset (map pos (filter (\<lambda>r. par r = X) T)))"
  shows "contiguous (mset (map pos (filter (\<lambda>r. par r = X) (map G (filter (\<lambda>r. rid r \<noteq> i) T)))))"
proof -
  let ?T = "filter (\<lambda>r. rid r \<noteq> i) T"
  let ?R = "mset (map pos (filter (\<lambda>r. par r = X) ?T))"
  show ?thesis
  proof (cases "X = par t")
    case True
    have old: "mset (map pos (filter (\<lambda>r. par r = X) T)) = add_mset (pos t) ?R"
      using positions_split[OF d f, of pos par X] True by simp
    have new: "mset (map pos (filter (\<lambda>r. par r = X) (map G ?T)))
               = image_mset (computeRemoveShift (pos t)) ?R"
      by (rule positions_map) (use G True in auto)
    from c show ?thesis unfolding new old by (rule contiguous_removeShift)
  next
    case False
    have old: "mset (map pos (filter (\<lambda>r. par r = X) T)) = ?R"
      using positions_split[OF d f, of pos par X] False by simp
    have new: "mset (map pos (filter (\<lambda>r. par r = X) (map G ?T))) = image_mset (\<lambda>x. x) ?R"
      by (rule positions_map) (use G False in auto)
    from c show ?thesis unfolding new old by simp
  qed
qed



lemma position_at_end:
  assumes "contiguous (mset (map pos (filter wh T)))"
  shows "(case prisma_findFirst_desc pos wh T of Some l \<Rightarrow> pos l + 1 | None \<Rightarrow> 0)
         = int (length (filter wh T))"
proof (cases "max_by pos (filter wh T)")
  case None
  then show ?thesis by (simp add: prisma_findFirst_desc_def max_by_None)
next
  case (Some m)
  with contiguous_max[OF assms Some] show ?thesis by (simp add: prisma_findFirst_desc_def)
qed

section \<open>Every operation preserves the invariant\<close>







lemma createColumn_state:
  assumes b: "prisma_findUnique (\<lambda>b. board_id b = boardId) (boards s) = Some brd"
    and c: "contiguous (column_positions s boardId)"
  shows "createColumn s new_id name boardId None =
           (s\<lparr>columns := columns s @
                [\<lparr>col_id = new_id, col_name = name,
                  col_position = int (size (column_positions s boardId)),
                  col_boardId = boardId\<rparr>]\<rparr>,
            Inr (Response 201 ''Column created successfully''
                  (Some \<lparr>col_id = new_id, col_name = name,
                          col_position = int (size (column_positions s boardId)),
                          col_boardId = boardId\<rparr>)))"
proof -
  have "(case prisma_findFirst_desc col_position (\<lambda>c. col_boardId c = boardId) (columns s) of
           Some l \<Rightarrow> col_position l + 1 | None \<Rightarrow> 0)
        = int (size (column_positions s boardId))"
    using position_at_end[of col_position "\<lambda>c. col_boardId c = boardId" "columns s"] c
    by (simp add: column_positions_def length_filter_size)
  then have "(case prisma_findFirst_desc col_position (\<lambda>c. col_boardId c = boardId) (columns s) of
           None \<Rightarrow> - 1 | Some m \<Rightarrow> col_position m) + 1
        = int (size (column_positions s boardId))"
    by (simp split: option.splits)
  with b show ?thesis
    by (simp add: createColumn_def prisma_create_def Let_def)
qed

lemma board_createColumn_state:
  assumes b: "prisma_findUnique (\<lambda>b. board_id b = boardId) (boards s) = Some brd"
    and c: "contiguous (column_positions s boardId)"
  shows "board_createColumn s new_id boardId name None =
           (s\<lparr>columns := columns s @
                [\<lparr>col_id = new_id, col_name = name,
                  col_position = int (size (column_positions s boardId)),
                  col_boardId = boardId\<rparr>]\<rparr>,
            Inr (Response 201 ''Column created successfully''
                  (Some \<lparr>col_id = new_id, col_name = name,
                          col_position = int (size (column_positions s boardId)),
                          col_boardId = boardId\<rparr>)))"
proof -
  have "(case prisma_findFirst_desc col_position (\<lambda>c. col_boardId c = boardId) (columns s) of
           Some l \<Rightarrow> col_position l + 1 | None \<Rightarrow> 0)
        = int (size (column_positions s boardId))"
    using position_at_end[of col_position "\<lambda>c. col_boardId c = boardId" "columns s"] c
    by (simp add: column_positions_def length_filter_size)
  with b show ?thesis
    by (simp add: board_createColumn_def prisma_create_def Let_def)
qed

lemma createTask_state:
  assumes b: "prisma_findUnique (\<lambda>c. col_id c = ct_columnId req) (columns s) = Some col"
    and c: "contiguous (task_positions s (ct_columnId req))"
    and n: "ct_position req = None"
  shows "\<exists>t. createTask s new_id req =
               (s\<lparr>tasks := tasks s @ [t]\<rparr>, Inr (Response 201 ''Task created successfully'' (Some t)))
             \<and> task_id t = new_id \<and> task_columnId t = ct_columnId req
             \<and> task_position t = int (size (task_positions s (ct_columnId req)))"
proof -
  have "(case prisma_findFirst_desc task_position (\<lambda>t. task_columnId t = ct_columnId req) (tasks s) of
           Some l \<Rightarrow> task_position l + 1 | None \<Rightarrow> 0)
        = int (size (task_positions s (ct_columnId req)))"
    using position_at_end[of task_position "\<lambda>t. task_columnId t = ct_columnId req" "tasks s"] c
    by (simp add: task_positions_def length_filter_size)
  with b n show ?thesis
    by (simp add: createTask_def prisma_create_def Let_def)
qed





section \<open>Lookups, frames and evaluation on concrete stores\<close>

lemma find_map: "(\<And>r. P (G r) = P r) \<Longrightarrow> find P (map G T) = map_option G (find P T)"
  by (induction T) auto

lemma contiguous_eval: "contiguous (mset ps) \<longleftrightarrow> sort ps = map int [0..<length ps]"
proof
  assume "contiguous (mset ps)"
  then have "mset ps = mset (map int [0..<length ps])"
    unfolding contiguous_def size_mset .
  then have "mset (map int [0..<length ps]) = mset ps" by (rule sym)
  moreover have "sorted (map int [0..<length ps])"
    by (simp add: sorted_map sorted_wrt_iff_nth_less)
  ultimately show "sort ps = map int [0..<length ps]" by (rule properties_for_sort)
next
  assume "sort ps = map int [0..<length ps]"
  then have "mset (sort ps) = mset (map int [0..<length ps])" by (rule arg_cong)
  then show "contiguous (mset ps)" unfolding contiguous_def size_mset mset_sort .
qed

lemma column_positions_eval:
  "contiguous (column_positions s b) \<longleftrightarrow>
     sort (map col_position (filter (\<lambda>c. col_boardId c = b) (columns s)))
     = map int [0..<length (filter (\<lambda>c. col_boardId c = b) (columns s))]"
  "size (column_positions s b) = length (filter (\<lambda>c. col_boardId c = b) (columns s))"
  unfolding column_positions_def contiguous_eval by (simp_all add: length_filter_size)

lemma task_positions_eval:
  "contiguous (task_positions s c) \<longleftrightarrow>
     sort (map task_position (filter (\<lambda>t. task_columnId t = c) (tasks s)))
     = map int [0..<length (filter (\<lambda>t. task_columnId t = c) (tasks s))]"
  "size (task_positions s c) = length (filter (\<lambda>t. task_columnId t = c) (tasks s))"
  unfolding task_positions_def contiguous_eval by (simp_all add: length_filter_size)

lemma findUnique_SomeD: "prisma_findUnique P T = Some x \<Longrightarrow> P x \<and> x \<in> set T"
  unfolding prisma_findUnique_def by (rule find_SomeD)

lemma contiguous_size_Max:
  assumes "contiguous M" "M \<noteq> {#}"
  shows "int (size M) = Max (set_mset M) + 1"
proof -
  from assms(2) have "size M > 0" by (simp add: nonempty_has_size)
  then have "Max {0..<int (size M)} = int (size M) - 1"
    by (intro Max_eqI) auto
  with contiguous_set[OF assms(1)] show ?thesis by simp
qed

lemma filter_update_other:
  assumes "\<And>r. rid (G r) = rid r"
  shows "filter (\<lambda>r. rid r \<noteq> i) (prisma_update (\<lambda>r. rid r = i) G T) = filter (\<lambda>r. rid r \<noteq> i) T"
  unfolding prisma_update_def using assms by (induction T) auto

lemma apply_update_id: "task_id (apply_update u t) = task_id t"
  by (simp add: apply_update_def Let_def split: option.splits)

lemmas eval_defs = Let_def contiguity_invariant_def wf_db_def column_positions_eval
      task_positions_eval example_db_def example_task_def example_request_def
      reorderColumn_def deleteColumn_def createColumn_def board_createColumn_def
      createTask_def moveTask_def deleteTask_def column_delete_def
      prisma_findUnique_def prisma_findFirst_def prisma_findFirst_desc_def
      prisma_updateMany_def prisma_update_def prisma_delete_def prisma_create_def

section \<open>The contiguity invariant\<close>




section \<open>Refusing to delete a Column that has Tasks\<close>

lemma deleteColumn_refuses:
  assumes "prisma_findUnique (\<lambda>c. col_id c = cid) (columns s) = Some c"
    and "filter (\<lambda>t. task_columnId t = cid) (tasks s) \<noteq> []"
  shows "deleteColumn s cid =
           (s, Inl (ApiError 400
              ''Cannot delete column with tasks. Please move or delete all tasks first.''))"
  using assms by (simp add: deleteColumn_def)

text \<open>
  Claim C2: deleting a Column that has at least one Task fails with a 400 error and
  changes nothing, for every operation that deletes a Column. The column controller
  does so (\<open>deleteColumn_refuses\<close>). The column route nested under a board does not
  look at the Tasks: on the example store, whose first Column holds three Tasks, the
  column controller refuses, while the nested route answers 200 and removes the Column
  together with its Tasks, leaving the sibling positions \<open>1, 2, 3\<close>.
\<close>

theorem board_deleteColumn_ignores_tasks:
  "map task_id (filter (\<lambda>t. task_columnId t = ''c1'') (tasks example_db)) = [''t1'', ''t2'', ''t3'']
   \<and> deleteColumn example_db ''c1'' =
       (example_db, Inl (ApiError 400
          ''Cannot delete column with tasks. Please move or delete all tasks first.''))
   \<and> snd (board_deleteColumn example_db ''b1'' ''c1'')
       = Inr (Response 200 ''Column deleted successfully'' None)
   \<and> map (\<lambda>c. (col_id c, col_position c)) (columns (fst (board_deleteColumn example_db ''b1'' ''c1'')))
       = [(''c2'', 1), (''c3'', 2), (''c4'', 3)]
   \<and> map task_id (tasks (fst (board_deleteColumn example_db ''b1'' ''c1''))) = [''t4'', ''t5'']"
  by (simp add: eval_defs board_deleteColumn_def)

section \<open>Moves within one parent\<close>

text \<open>
  Claim C3: a move within the same parent (a Column reorder, or a Task move whose target
  Column is the Task's own) gives the moved row exactly the target position and shifts
  exactly the siblings the specification names: those with position in \<open>(from, to]\<close>
  go down by one when \<open>to > from\<close>, those in \<open>[to, from)\<close> go up by one when
  \<open>to < from\<close> (\<open>computeMoveShift\<close>); every other row is unchanged.
\<close>

theorem same_parent_move_shifts:
  "(prisma_findUnique (\<lambda>c. col_id c = cid) (columns s) = Some c \<longrightarrow>
      fst (reorderColumn s cid p) =
        s\<lparr>columns := map (\<lambda>r. if col_id r = cid then r\<lparr>col_position := p\<rparr>
                              else if col_boardId r = col_boardId c
                              then r\<lparr>col_position := computeMoveShift (col_position c) p (col_position r)\<rparr>
                              else r) (columns s)\<rparr>
      \<and> snd (reorderColumn s cid p) =
          Inr (Response 200 ''Column reordered successfully'' (Some (c\<lparr>col_position := p\<rparr>))))
   \<and> (prisma_findUnique (\<lambda>t. task_id t = tid) (tasks s) = Some t
      \<and> prisma_findUnique (\<lambda>c. col_id c = task_columnId t) (columns s) = Some col \<longrightarrow>
      fst (moveTask s tid (task_columnId t) q) =
        s\<lparr>tasks := map (\<lambda>r. if task_id r = tid
                            then r\<lparr>task_columnId := task_columnId t, task_position := q\<rparr>
                            else if task_columnId r = task_columnId t
                            then r\<lparr>task_position := computeMoveShift (task_position t) q (task_position r)\<rparr>
                            else r) (tasks s)\<rparr>
      \<and> snd (moveTask s tid (task_columnId t) q) =
          Inr (Response 200 ''Task moved successfully'' (Some (t\<lparr>task_position := q\<rparr>))))"
proof (intro conjI impI)
  assume f: "prisma_findUnique (\<lambda>c. col_id c = cid) (columns s) = Some c"
  show st: "fst (reorderColumn s cid p) =
        s\<lparr>columns := map (\<lambda>r. if col_id r = cid then r\<lparr>col_position := p\<rparr>
                              else if col_boardId r = col_boardId c
                              then r\<lparr>col_position := computeMoveShift (col_position c) p (col_position r)\<rparr>
                              else r) (columns s)\<rparr>"
    by (rule reorderColumn_state[OF f])
  from findUnique_SomeD[OF f] have c: "col_id c = cid" by simp
  have "snd (reorderColumn s cid p) =
          Inr (Response 200 ''Column reordered successfully''
                (prisma_findUnique (\<lambda>c. col_id c = cid) (columns (fst (reorderColumn s cid p)))))"
    using f by (simp add: reorderColumn_def Let_def)
  also have "prisma_findUnique (\<lambda>c. col_id c = cid) (columns (fst (reorderColumn s cid p)))
             = Some (c\<lparr>col_position := p\<rparr>)"
    unfolding st prisma_findUnique_def using f c
    by (simp add: find_map prisma_findUnique_def)
  finally show "snd (reorderColumn s cid p) =
          Inr (Response 200 ''Column reordered successfully'' (Some (c\<lparr>col_position := p\<rparr>)))" .
next
  assume a: "prisma_findUnique (\<lambda>t. task_id t = tid) (tasks s) = Some t
      \<and> prisma_findUnique (\<lambda>c. col_id c = task_columnId t) (columns s) = Some col"
  then have f: "prisma_findUnique (\<lambda>t. task_id t = tid) (tasks s) = Some t"
    and g: "prisma_findUnique (\<lambda>c. col_id c = task_columnId t) (columns s) = Some col" by simp_all
  show st: "fst (moveTask s tid (task_columnId t) q) =
        s\<lparr>tasks := map (\<lambda>r. if task_id r = tid
                            then r\<lparr>task_columnId := task_columnId t, task_position := q\<rparr>
                            else if task_columnId r = task_columnId t
                            then r\<lparr>task_position := computeMoveShift (task_position t) q (task_position r)\<rparr>
                            else r) (tasks s)\<rparr>"
    by (rule moveTask_same_state[OF f g])
  from findUnique_SomeD[OF f] have c: "task_id t = tid" by simp
  have "snd (moveTask s tid (task_columnId t) q) =
          Inr (Response 200 ''Task moved successfully''
                (prisma_findUnique (\<lambda>t. task_id t = tid) (tasks (fst (moveTask s tid (task_columnId t) q)))))"
    using f g by (simp add: moveTask_def Let_def)
  also have "prisma_findUnique (\<lambda>t. task_id t = tid) (tasks (fst (moveTask s tid (task_columnId t) q)))
             = Some (t\<lparr>task_position := q\<rparr>)"
    unfolding st prisma_findUnique_def using f c
    by (simp add: find_map prisma_findUnique_def)
  finally show "snd (moveTask s tid (task_columnId t) q) =
          Inr (Response 200 ''Task moved successfully'' (Some (t\<lparr>task_position := q\<rparr>)))" .
qed


theorem same_parent_move_shifts_witness:
  "prisma_findUnique (\<lambda>c. col_id c = ''c2'') (columns example_db)
     = Some \<lparr>col_id = ''c2'', col_name = ''In Progress'', col_position = 1, col_boardId = ''b1''\<rparr>
   \<and> map (\<lambda>c. (col_id c, col_position c)) (columns (fst (reorderColumn example_db ''c2'' 3)))
     = [(''c1'', 0), (''c2'', 3), (''c3'', 1), (''c4'', 2)]
   \<and> prisma_findUnique (\<lambda>t. task_id t = ''t3'') (tasks example_db) = Some (example_task ''t3'' ''c1'' 2)
   \<and> prisma_findUnique (\<lambda>c. col_id c = ''c1'') (columns example_db)
     = Some \<lparr>col_id = ''c1'', col_name = ''To Do'', col_position = 0, col_boardId = ''b1''\<rparr>
   \<and> map (\<lambda>t. (task_id t, task_columnId t, task_position t))
         (tasks (fst (moveTask example_db ''t3'' ''c1'' 0)))
     = [(''t1'', ''c1'', 1), (''t2'', ''c1'', 2), (''t3'', ''c1'', 0),
        (''t4'', ''c2'', 0), (''t5'', ''c2'', 1)]"
proof -
  have a: "prisma_findUnique (\<lambda>c. col_id c = ''c2'') (columns example_db)
     = Some \<lparr>col_id = ''c2'', col_name = ''In Progress'', col_position = 1, col_boardId = ''b1''\<rparr>"
    by (simp add: example_db_def prisma_findUnique_def)
  have b: "prisma_findUnique (\<lambda>t. task_id t = ''t3'') (tasks example_db) = Some (example_task ''t3'' ''c1'' 2)"
    by (simp add: example_db_def example_task_def prisma_findUnique_def)
  have c: "prisma_findUnique (\<lambda>c. col_id c = task_columnId (example_task ''t3'' ''c1'' 2)) (columns example_db)
     = Some \<lparr>col_id = ''c1'', col_name = ''To Do'', col_position = 0, col_boardId = ''b1''\<rparr>"
    by (simp add: example_db_def example_task_def prisma_findUnique_def)
  from same_parent_move_shifts[of "''c2''" example_db
         "\<lparr>col_id = ''c2'', col_name = ''In Progress'', col_position = 1, col_boardId = ''b1''\<rparr>" 3
         "''t3''" "example_task ''t3'' ''c1'' 2"
         "\<lparr>col_id = ''c1'', col_name = ''To Do'', col_position = 0, col_boardId = ''b1''\<rparr>" 0] a b c
  have "fst (reorderColumn example_db ''c2'' 3) =
          example_db\<lparr>columns := map (\<lambda>r. if col_id r = ''c2'' then r\<lparr>col_position := 3\<rparr>
                              else if col_boardId r = ''b1''
                              then r\<lparr>col_position := computeMoveShift 1 3 (col_position r)\<rparr>
                              else r) (columns example_db)\<rparr>"
    and "fst (moveTask example_db ''t3'' ''c1'' 0) =
          example_db\<lparr>tasks := map (\<lambda>r. if task_id r = ''t3''
                            then r\<lparr>task_columnId := ''c1'', task_position := 0\<rparr>
                            else if task_columnId r = ''c1''
                            then r\<lparr>task_position := computeMoveShift 2 0 (task_position r)\<rparr>
                            else r) (tasks example_db)\<rparr>"
    by (simp_all add: example_task_def)
  with a b c show ?thesis
    by (simp add: example_db_def example_task_def computeMoveShift_def)
qed

section \<open>Moves into another Column\<close>

text \<open>
  Claim C4: a Task move into another existing Column decrements every Task of the source
  Column whose position is greater than the moved Task's old position, increments every
  Task of the target Column whose position is at least the target position, and gives
  the moved Task the target Column and exactly the target position.
\<close>

theorem cross_column_move_shifts:
  assumes "prisma_findUnique (\<lambda>t. task_id t = tid) (tasks s) = Some t"
    and "prisma_findUnique (\<lambda>c. col_id c = columnId) (columns s) = Some col"
    and "columnId \<noteq> task_columnId t"
  shows "fst (moveTask s tid columnId p) =
           s\<lparr>tasks := map (\<lambda>r. if task_id r = tid
                               then r\<lparr>task_columnId := columnId, task_position := p\<rparr>
                               else if task_columnId r = task_columnId t
                               then r\<lparr>task_position := computeRemoveShift (task_position t) (task_position r)\<rparr>
                               else if task_columnId r = columnId
                               then r\<lparr>task_position := computeInsertShift p (task_position r)\<rparr>
                               else r) (tasks s)\<rparr>
         \<and> snd (moveTask s tid columnId p) =
             Inr (Response 200 ''Task moved successfully''
                   (Some (t\<lparr>task_columnId := columnId, task_position := p\<rparr>)))"
proof
  show st: "fst (moveTask s tid columnId p) =
           s\<lparr>tasks := map (\<lambda>r. if task_id r = tid
                               then r\<lparr>task_columnId := columnId, task_position := p\<rparr>
                               else if task_columnId r = task_columnId t
                               then r\<lparr>task_position := computeRemoveShift (task_position t) (task_position r)\<rparr>
                               else if task_columnId r = columnId
                               then r\<lparr>task_position := computeInsertShift p (task_position r)\<rparr>
                               else r) (tasks s)\<rparr>"
    by (rule moveTask_cross_state[OF assms])
  from findUnique_SomeD[OF assms(1)] have c: "task_id t = tid" by simp
  have "snd (moveTask s tid columnId p) =
          Inr (Response 200 ''Task moved successfully''
                (prisma_findUnique (\<lambda>t. task_id t = tid) (tasks (fst (moveTask s tid columnId p)))))"
    using assms by (simp add: moveTask_def Let_def)
  also have "prisma_findUnique (\<lambda>t. task_id t = tid) (tasks (fst (moveTask s tid columnId p)))
             = Some (t\<lparr>task_columnId := columnId, task_position := p\<rparr>)"
    unfolding st prisma_findUnique_def using assms(1) c
    by (simp add: find_map prisma_findUnique_def)
  finally show "snd (moveTask s tid columnId p) =
          Inr (Response 200 ''Task moved successfully''
                (Some (t\<lparr>task_columnId := columnId, task_position := p\<rparr>)))" .
qed

theorem cross_column_move_shifts_witness:
  "prisma_findUnique (\<lambda>t. task_id t = ''t2'') (tasks example_db) = Some (example_task ''t2'' ''c1'' 1)
   \<and> prisma_findUnique (\<lambda>c. col_id c = ''c2'') (columns example_db)
     = Some \<lparr>col_id = ''c2'', col_name = ''In Progress'', col_position = 1, col_boardId = ''b1''\<rparr>
   \<and> ''c2'' \<noteq> task_columnId (example_task ''t2'' ''c1'' 1)
   \<and> map (\<lambda>t. (task_id t, task_columnId t, task_position t))
         (tasks (fst (moveTask example_db ''t2'' ''c2'' 1)))
     = [(''t1'', ''c1'', 0), (''t2'', ''c2'', 1), (''t3'', ''c1'', 1),
        (''t4'', ''c2'', 0), (''t5'', ''c2'', 2)]"
proof -
  have a: "prisma_findUnique (\<lambda>t. task_id t = ''t2'') (tasks example_db) = Some (example_task ''t2'' ''c1'' 1)"
    by (simp add: example_db_def example_task_def prisma_findUnique_def)
  have b: "prisma_findUnique (\<lambda>c. col_id c = ''c2'') (columns example_db)
     = Some \<lparr>col_id = ''c2'', col_name = ''In Progress'', col_position = 1, col_boardId = ''b1''\<rparr>"
    by (simp add: example_db_def prisma_findUnique_def)
  have c: "''c2'' \<noteq> task_columnId (example_task ''t2'' ''c1'' 1)"
    by (simp add: example_task_def)
  from cross_column_move_shifts[OF a b c, of 1] a b c show ?thesis
    by (simp add: example_db_def example_task_def computeRemoveShift_def computeInsertShift_def)
qed

section \<open>Deleting closes the gap\<close>

text \<open>
  Claim C5: deleting a Task, or an empty Column through the column controller, removes
  the row and decrements exactly the siblings whose position is greater than the removed
  one; if the positions of the parent were contiguous from 0 before, they are afterwards.
\<close>

theorem delete_closes_gap:
  "(wf_db s \<and> prisma_findUnique (\<lambda>t. task_id t = tid) (tasks s) = Some t \<longrightarrow>
      fst (deleteTask s tid) =
        s\<lparr>tasks := map (\<lambda>r. if task_columnId r = task_columnId t
                            then r\<lparr>task_position := computeRemoveShift (task_position t) (task_position r)\<rparr>
                            else r) (filter (\<lambda>r. task_id r \<noteq> tid) (tasks s))\<rparr>
      \<and> snd (deleteTask s tid) = Inr (Response 200 ''Task deleted successfully'' None)
      \<and> (contiguous (task_positions s (task_columnId t)) \<longrightarrow>
           contiguous (task_positions (fst (deleteTask s tid)) (task_columnId t))))
   \<and> (wf_db s \<and> prisma_findUnique (\<lambda>c. col_id c = cid) (columns s) = Some c
        \<and> filter (\<lambda>t. task_columnId t = cid) (tasks s) = [] \<longrightarrow>
      fst (deleteColumn s cid) =
        s\<lparr>columns := map (\<lambda>r. if col_boardId r = col_boardId c
                              then r\<lparr>col_position := computeRemoveShift (col_position c) (col_position r)\<rparr>
                              else r) (filter (\<lambda>r. col_id r \<noteq> cid) (columns s))\<rparr>
      \<and> snd (deleteColumn s cid) = Inr (Response 200 ''Column deleted successfully'' None)
      \<and> (contiguous (column_positions s (col_boardId c)) \<longrightarrow>
           contiguous (column_positions (fst (deleteColumn s cid)) (col_boardId c))))"
proof (intro conjI impI)
  assume a: "wf_db s \<and> prisma_findUnique (\<lambda>t. task_id t = tid) (tasks s) = Some t"
  then have f: "prisma_findUnique (\<lambda>t. task_id t = tid) (tasks s) = Some t"
    and d: "distinct (map task_id (tasks s))" by (simp_all add: wf_db_def)
  show st: "fst (deleteTask s tid) =
        s\<lparr>tasks := map (\<lambda>r. if task_columnId r = task_columnId t
                            then r\<lparr>task_position := computeRemoveShift (task_position t) (task_position r)\<rparr>
                            else r) (filter (\<lambda>r. task_id r \<noteq> tid) (tasks s))\<rparr>"
    by (rule deleteTask_state[OF f])
  show "snd (deleteTask s tid) = Inr (Response 200 ''Task deleted successfully'' None)"
    using f by (simp add: deleteTask_def Let_def)
  assume c: "contiguous (task_positions s (task_columnId t))"
  from f have f': "find (\<lambda>r. task_id r = tid) (tasks s) = Some t"
    by (simp add: prisma_findUnique_def)
  have "contiguous (mset (map task_position (filter (\<lambda>r. task_columnId r = task_columnId t)
          (map (\<lambda>r. if task_columnId r = task_columnId t
                     then r\<lparr>task_position := computeRemoveShift (task_position t) (task_position r)\<rparr>
                     else r) (filter (\<lambda>r. task_id r \<noteq> tid) (tasks s))))))"
    by (rule table_remove[OF d f']) (use c in \<open>simp_all add: task_positions_def\<close>)
  then show "contiguous (task_positions (fst (deleteTask s tid)) (task_columnId t))"
    unfolding st by (simp add: task_positions_def)
next
  assume a: "wf_db s \<and> prisma_findUnique (\<lambda>c. col_id c = cid) (columns s) = Some c
        \<and> filter (\<lambda>t. task_columnId t = cid) (tasks s) = []"
  then have f: "prisma_findUnique (\<lambda>c. col_id c = cid) (columns s) = Some c"
    and e: "filter (\<lambda>t. task_columnId t = cid) (tasks s) = []"
    and d: "distinct (map col_id (columns s))" by (simp_all add: wf_db_def)
  show st: "fst (deleteColumn s cid) =
        s\<lparr>columns := map (\<lambda>r. if col_boardId r = col_boardId c
                              then r\<lparr>col_position := computeRemoveShift (col_position c) (col_position r)\<rparr>
                              else r) (filter (\<lambda>r. col_id r \<noteq> cid) (columns s))\<rparr>"
    by (rule deleteColumn_state[OF f e])
  show "snd (deleteColumn s cid) = Inr (Response 200 ''Column deleted successfully'' None)"
    using f e by (simp add: deleteColumn_def Let_def)
  assume c: "contiguous (column_positions s (col_boardId c))"
  from f have f': "find (\<lambda>r. col_id r = cid) (columns s) = Some c"
    by (simp add: prisma_findUnique_def)
  have "contiguous (mset (map col_position (filter (\<lambda>r. col_boardId r = col_boardId c)
          (map (\<lambda>r. if col_boardId r = col_boardId c
                     then r\<lparr>col_position := computeRemoveShift (col_position c) (col_position r)\<rparr>
                     else r) (filter (\<lambda>r. col_id r \<noteq> cid) (columns s))))))"
    by (rule table_remove[OF d f']) (use c in \<open>simp_all add: column_positions_def\<close>)
  then show "contiguous (column_positions (fst (deleteColumn s cid)) (col_boardId c))"
    unfolding st by (simp add: column_positions_def)
qed

theorem delete_closes_gap_witness:
  "wf_db example_db
   \<and> prisma_findUnique (\<lambda>t. task_id t = ''t2'') (tasks example_db) = Some (example_task ''t2'' ''c1'' 1)
   \<and> contiguous (task_positions example_db ''c1'')
   \<and> map (\<lambda>t. (task_id t, task_columnId t, task_position t)) (tasks (fst (deleteTask example_db ''t2'')))
     = [(''t1'', ''c1'', 0), (''t3'', ''c1'', 1), (''t4'', ''c2'', 0), (''t5'', ''c2'', 1)]
   \<and> contiguous (task_positions (fst (deleteTask example_db ''t2'')) ''c1'')
   \<and> prisma_findUnique (\<lambda>c. col_id c = ''c3'') (columns example_db)
     = Some \<lparr>col_id = ''c3'', col_name = ''Done'', col_position = 2, col_boardId = ''b1''\<rparr>
   \<and> filter (\<lambda>t. task_columnId t = ''c3'') (tasks example_db) = []
   \<and> contiguous (column_positions example_db ''b1'')
   \<and> map (\<lambda>c. (col_id c, col_position c)) (columns (fst (deleteColumn example_db ''c3'')))
     = [(''c1'', 0), (''c2'', 1), (''c4'', 2)]
   \<and> contiguous (column_positions (fst (deleteColumn example_db ''c3'')) ''b1'')"
proof -
  have w: "wf_db example_db" by (simp add: wf_db_def example_db_def example_task_def)
  have a: "prisma_findUnique (\<lambda>t. task_id t = ''t2'') (tasks example_db) = Some (example_task ''t2'' ''c1'' 1)"
    by (simp add: example_db_def example_task_def prisma_findUnique_def)
  have b: "contiguous (task_positions example_db ''c1'')"
    by (simp add: task_positions_eval example_db_def example_task_def)
  have c: "prisma_findUnique (\<lambda>c. col_id c = ''c3'') (columns example_db)
     = Some \<lparr>col_id = ''c3'', col_name = ''Done'', col_position = 2, col_boardId = ''b1''\<rparr>"
    by (simp add: example_db_def prisma_findUnique_def)
  have d: "filter (\<lambda>t. task_columnId t = ''c3'') (tasks example_db) = []"
    by (simp add: example_db_def example_task_def)
  have e: "contiguous (column_positions example_db ''b1'')"
    by (simp add: column_positions_eval example_db_def)
  from delete_closes_gap[of example_db "''t2''" "example_task ''t2'' ''c1'' 1" "''c3''"
      "\<lparr>col_id = ''c3'', col_name = ''Done'', col_position = 2, col_boardId = ''b1''\<rparr>"] w a b c d e
  show ?thesis
    by (simp add: eval_defs computeRemoveShift_def)
qed

section \<open>Creating without a position\<close>

text \<open>
  Claim C6: creating a Column (by either route) or a Task without a position, under a
  parent whose positions are contiguous from 0, gives the new row the position
  \<open>currentCount\<close>: 0 when the parent has no children, and otherwise the largest
  position plus one.
\<close>

theorem create_appends_at_end:
  "(prisma_findUnique (\<lambda>b. board_id b = boardId) (boards s) = Some brd
      \<and> contiguous (column_positions s boardId) \<longrightarrow>
      createColumn s new_id name boardId None =
        (s\<lparr>columns := columns s @
             [\<lparr>col_id = new_id, col_name = name,
               col_position = int (size (column_positions s boardId)), col_boardId = boardId\<rparr>]\<rparr>,
         Inr (Response 201 ''Column created successfully''
               (Some \<lparr>col_id = new_id, col_name = name,
                       col_position = int (size (column_positions s boardId)),
                       col_boardId = boardId\<rparr>)))
      \<and> board_createColumn s new_id boardId name None = createColumn s new_id name boardId None
      \<and> (if column_positions s boardId = {#} then int (size (column_positions s boardId)) = 0
         else int (size (column_positions s boardId)) = Max (set_mset (column_positions s boardId)) + 1))
   \<and> (prisma_findUnique (\<lambda>c. col_id c = ct_columnId req) (columns s) = Some col
      \<and> contiguous (task_positions s (ct_columnId req)) \<and> ct_position req = None \<longrightarrow>
      (\<exists>t. createTask s new_id2 req =
             (s\<lparr>tasks := tasks s @ [t]\<rparr>, Inr (Response 201 ''Task created successfully'' (Some t)))
           \<and> task_id t = new_id2 \<and> task_columnId t = ct_columnId req
           \<and> task_position t = int (size (task_positions s (ct_columnId req))))
      \<and> (if task_positions s (ct_columnId req) = {#}
         then int (size (task_positions s (ct_columnId req))) = 0
         else int (size (task_positions s (ct_columnId req)))
              = Max (set_mset (task_positions s (ct_columnId req))) + 1))"
proof (intro conjI impI)
  assume a: "prisma_findUnique (\<lambda>b. board_id b = boardId) (boards s) = Some brd
      \<and> contiguous (column_positions s boardId)"
  then have b: "prisma_findUnique (\<lambda>b. board_id b = boardId) (boards s) = Some brd"
    and c: "contiguous (column_positions s boardId)" by simp_all
  show "createColumn s new_id name boardId None =
        (s\<lparr>columns := columns s @
             [\<lparr>col_id = new_id, col_name = name,
               col_position = int (size (column_positions s boardId)), col_boardId = boardId\<rparr>]\<rparr>,
         Inr (Response 201 ''Column created successfully''
               (Some \<lparr>col_id = new_id, col_name = name,
                       col_position = int (size (column_positions s boardId)),
                       col_boardId = boardId\<rparr>)))"
    by (rule createColumn_state[OF b c])
  show "board_createColumn s new_id boardId name None = createColumn s new_id name boardId None"
    by (simp only: createColumn_state[OF b c] board_createColumn_state[OF b c])
  show "if column_positions s boardId = {#} then int (size (column_positions s boardId)) = 0
         else int (size (column_positions s boardId)) = Max (set_mset (column_positions s boardId)) + 1"
    using contiguous_size_Max[OF c] by simp
next
  assume a: "prisma_findUnique (\<lambda>c. col_id c = ct_columnId req) (columns s) = Some col
      \<and> contiguous (task_positions s (ct_columnId req)) \<and> ct_position req = None"
  then have b: "prisma_findUnique (\<lambda>c. col_id c = ct_columnId req) (columns s) = Some col"
    and c: "contiguous (task_positions s (ct_columnId req))" and n: "ct_position req = None"
    by simp_all
  show "\<exists>t. createTask s new_id2 req =
             (s\<lparr>tasks := tasks s @ [t]\<rparr>, Inr (Response 201 ''Task created successfully'' (Some t)))
           \<and> task_id t = new_id2 \<and> task_columnId t = ct_columnId req
           \<and> task_position t = int (size (task_positions s (ct_columnId req)))"
    by (rule createTask_state[OF b c n])
  show "if task_positions s (ct_columnId req) = {#}
         then int (size (task_positions s (ct_columnId req))) = 0
         else int (size (task_positions s (ct_columnId req)))
              = Max (set_mset (task_positions s (ct_columnId req))) + 1"
    using contiguous_size_Max[OF c] by simp
qed

theorem create_appends_at_end_witness:
  "prisma_findUnique (\<lambda>b. board_id b = ''b1'') (boards example_db)
     = Some \<lparr>board_id = ''b1'', board_name = ''Board''\<rparr>
   \<and> contiguous (column_positions example_db ''b1'')
   \<and> map (\<lambda>c. (col_id c, col_position c)) (columns (fst (createColumn example_db ''c5'' ''Later'' ''b1'' None)))
     = [(''c1'', 0), (''c2'', 1), (''c3'', 2), (''c4'', 3), (''c5'', 4)]
   \<and> prisma_findUnique (\<lambda>c. col_id c = ct_columnId example_request) (columns example_db)
     = Some \<lparr>col_id = ''c2'', col_name = ''In Progress'', col_position = 1, col_boardId = ''b1''\<rparr>
   \<and> contiguous (task_positions example_db (ct_columnId example_request))
   \<and> ct_position example_request = None
   \<and> map (\<lambda>t. (task_id t, task_columnId t, task_position t))
        (tasks (fst (createTask example_db ''t6'' example_request)))
     = [(''t1'', ''c1'', 0), (''t2'', ''c1'', 1), (''t3'', ''c1'', 2),
        (''t4'', ''c2'', 0), (''t5'', ''c2'', 1), (''t6'', ''c2'', 2)]"
proof -
  have a: "prisma_findUnique (\<lambda>b. board_id b = ''b1'') (boards example_db)
     = Some \<lparr>board_id = ''b1'', board_name = ''Board''\<rparr>"
    by (simp add: example_db_def prisma_findUnique_def)
  have b: "contiguous (column_positions example_db ''b1'')"
    by (simp add: column_positions_eval example_db_def)
  have c: "prisma_findUnique (\<lambda>c. col_id c = ct_columnId example_request) (columns example_db)
     = Some \<lparr>col_id = ''c2'', col_name = ''In Progress'', col_position = 1, col_boardId = ''b1''\<rparr>"
    by (simp add: example_db_def example_request_def prisma_findUnique_def)
  have d: "contiguous (task_positions example_db (ct_columnId example_request))"
    by (simp add: task_positions_eval example_db_def example_task_def example_request_def)
  have e: "ct_position example_request = None" by (simp add: example_request_def)
  from create_appends_at_end[of "''b1''" example_db "\<lparr>board_id = ''b1'', board_name = ''Board''\<rparr>"
      "''c5''" "''Later''" example_request
      "\<lparr>col_id = ''c2'', col_name = ''In Progress'', col_position = 1, col_boardId = ''b1''\<rparr>" "''t6''"]
    a b c d e
  show ?thesis
    by (simp add: eval_defs)
qed

section \<open>Moving a row to its own position\<close>

text \<open>
  Claim C7: reordering a Column to its current position, or moving a Task to its current
  Column and position, leaves the whole store as it was: no sibling is shifted and the
  moved row keeps its position.
\<close>

theorem move_to_own_position_is_identity:
  "(wf_db s \<and> prisma_findUnique (\<lambda>c. col_id c = cid) (columns s) = Some c \<longrightarrow>
      fst (reorderColumn s cid (col_position c)) = s)
   \<and> (wf_db s \<and> prisma_findUnique (\<lambda>t. task_id t = tid) (tasks s) = Some t
      \<and> prisma_findUnique (\<lambda>c. col_id c = task_columnId t) (columns s) = Some col \<longrightarrow>
      fst (moveTask s tid (task_columnId t) (task_position t)) = s)"
proof (intro conjI impI)
  assume a: "wf_db s \<and> prisma_findUnique (\<lambda>c. col_id c = cid) (columns s) = Some c"
  then have f: "find (\<lambda>c. col_id c = cid) (columns s) = Some c"
    and d: "distinct (map col_id (columns s))" by (simp_all add: wf_db_def prisma_findUnique_def)
  have "map (\<lambda>r. if col_id r = cid then r\<lparr>col_position := col_position c\<rparr> else r) (columns s)
        = columns s"
    using find_unique_row[OF d f] by (simp add: map_idI)
  with a show "fst (reorderColumn s cid (col_position c)) = s"
    by (simp add: reorderColumn_def Let_def prisma_update_def)
next
  assume a: "wf_db s \<and> prisma_findUnique (\<lambda>t. task_id t = tid) (tasks s) = Some t
      \<and> prisma_findUnique (\<lambda>c. col_id c = task_columnId t) (columns s) = Some col"
  then have f: "find (\<lambda>t. task_id t = tid) (tasks s) = Some t"
    and d: "distinct (map task_id (tasks s))" by (simp_all add: wf_db_def prisma_findUnique_def)
  have "map (\<lambda>r. if task_id r = tid
                  then r\<lparr>task_columnId := task_columnId t, task_position := task_position t\<rparr>
                  else r) (tasks s) = tasks s"
    using find_unique_row[OF d f] by (simp add: map_idI)
  with a show "fst (moveTask s tid (task_columnId t) (task_position t)) = s"
    by (simp add: moveTask_def Let_def prisma_update_def)
qed

theorem move_to_own_position_is_identity_witness:
  "wf_db example_db
   \<and> prisma_findUnique (\<lambda>c. col_id c = ''c2'') (columns example_db)
     = Some \<lparr>col_id = ''c2'', col_name = ''In Progress'', col_position = 1, col_boardId = ''b1''\<rparr>
   \<and> fst (reorderColumn example_db ''c2'' 1) = example_db
   \<and> prisma_findUnique (\<lambda>t. task_id t = ''t2'') (tasks example_db) = Some (example_task ''t2'' ''c1'' 1)
   \<and> prisma_findUnique (\<lambda>c. col_id c = ''c1'') (columns example_db)
     = Some \<lparr>col_id = ''c1'', col_name = ''To Do'', col_position = 0, col_boardId = ''b1''\<rparr>
   \<and> fst (moveTask example_db ''t2'' ''c1'' 1) = example_db"
proof -
  have w: "wf_db example_db" by (simp add: wf_db_def example_db_def example_task_def)
  have a: "prisma_findUnique (\<lambda>c. col_id c = ''c2'') (columns example_db)
     = Some \<lparr>col_id = ''c2'', col_name = ''In Progress'', col_position = 1, col_boardId = ''b1''\<rparr>"
    by (simp add: example_db_def prisma_findUnique_def)
  have b: "prisma_findUnique (\<lambda>t. task_id t = ''t2'') (tasks example_db) = Some (example_task ''t2'' ''c1'' 1)"
    by (simp add: example_db_def example_task_def prisma_findUnique_def)
  have c: "prisma_findUnique (\<lambda>c. col_id c = ''c1'') (columns example_db)
     = Some \<lparr>col_id = ''c1'', col_name = ''To Do'', col_position = 0, col_boardId = ''b1''\<rparr>"
    by (simp add: example_db_def prisma_findUnique_def)
  from move_to_own_position_is_identity[of example_db "''c2''"
      "\<lparr>col_id = ''c2'', col_name = ''In Progress'', col_position = 1, col_boardId = ''b1''\<rparr>"
      "''t2''" "example_task ''t2'' ''c1'' 1"
      "\<lparr>col_id = ''c1'', col_name = ''To Do'', col_position = 0, col_boardId = ''b1''\<rparr>"] w a b c
  show ?thesis by (simp add: example_task_def)
qed

section \<open>The generic updates do not shift siblings\<close>

text \<open>
  Claim C8: the generic Update Column operations (of both controllers) and Update Task
  change no row but the one they are called for: every other Column and every other Task
  is exactly as before, whatever position or Column is written.
\<close>

theorem generic_update_leaves_siblings:
  "filter (\<lambda>r. col_id r \<noteq> cid) (columns (fst (updateColumn s cid name position)))
     = filter (\<lambda>r. col_id r \<noteq> cid) (columns s)
   \<and> tasks (fst (updateColumn s cid name position)) = tasks s
   \<and> filter (\<lambda>r. col_id r \<noteq> columnId) (columns (fst (board_updateColumn s boardId columnId name position)))
     = filter (\<lambda>r. col_id r \<noteq> columnId) (columns s)
   \<and> tasks (fst (board_updateColumn s boardId columnId name position)) = tasks s
   \<and> filter (\<lambda>r. task_id r \<noteq> tid) (tasks (fst (updateTask s tid updateData)))
     = filter (\<lambda>r. task_id r \<noteq> tid) (tasks s)
   \<and> columns (fst (updateTask s tid updateData)) = columns s"
proof (intro conjI)
  show "filter (\<lambda>r. col_id r \<noteq> cid) (columns (fst (updateColumn s cid name position)))
     = filter (\<lambda>r. col_id r \<noteq> cid) (columns s)"
    by (simp add: updateColumn_def Let_def filter_update_other split: option.splits)
  show "tasks (fst (updateColumn s cid name position)) = tasks s"
    by (simp add: updateColumn_def Let_def split: option.splits)
  show "filter (\<lambda>r. col_id r \<noteq> columnId) (columns (fst (board_updateColumn s boardId columnId name position)))
     = filter (\<lambda>r. col_id r \<noteq> columnId) (columns s)"
    by (simp add: board_updateColumn_def Let_def filter_update_other split: option.splits)
  show "tasks (fst (board_updateColumn s boardId columnId name position)) = tasks s"
    by (simp add: board_updateColumn_def Let_def split: option.splits)
  show "filter (\<lambda>r. task_id r \<noteq> tid) (tasks (fst (updateTask s tid updateData)))
     = filter (\<lambda>r. task_id r \<noteq> tid) (tasks s)"
    by (simp add: updateTask_def Let_def filter_update_other apply_update_id split: option.splits)
  show "columns (fst (updateTask s tid updateData)) = columns s"
    by (simp add: updateTask_def Let_def split: option.splits)
qed

theorem generic_update_leaves_siblings_witness:
  "map (\<lambda>c. (col_id c, col_position c)) (columns (fst (updateColumn example_db ''c3'' None (Some 0))))
     = [(''c1'', 0), (''c2'', 1), (''c3'', 0), (''c4'', 3)]
   \<and> filter (\<lambda>r. col_id r \<noteq> ''c3'') (columns (fst (updateColumn example_db ''c3'' None (Some 0))))
     = filter (\<lambda>r. col_id r \<noteq> ''c3'') (columns example_db)
   \<and> map (\<lambda>t. (task_id t, task_columnId t, task_position t))
        (tasks (fst (updateTask example_db ''t1''
           \<lparr>ut_title = None, ut_description = None, ut_columnId = Some ''c2'', ut_priority = None,
            ut_status = None, ut_dueDate = None, ut_position = Some 1\<rparr>)))
     = [(''t1'', ''c2'', 1), (''t2'', ''c1'', 1), (''t3'', ''c1'', 2),
        (''t4'', ''c2'', 0), (''t5'', ''c2'', 1)]"
proof -
  have a: "map (\<lambda>c. (col_id c, col_position c)) (columns (fst (updateColumn example_db ''c3'' None (Some 0))))
     = [(''c1'', 0), (''c2'', 1), (''c3'', 0), (''c4'', 3)]"
    by (simp add: example_db_def updateColumn_def prisma_findUnique_def prisma_update_def Let_def)
  have b: "map (\<lambda>t. (task_id t, task_columnId t, task_position t))
        (tasks (fst (updateTask example_db ''t1''
           \<lparr>ut_title = None, ut_description = None, ut_columnId = Some ''c2'', ut_priority = None,
            ut_status = None, ut_dueDate = None, ut_position = Some 1\<rparr>)))
     = [(''t1'', ''c2'', 1), (''t2'', ''c1'', 1), (''t3'', ''c1'', 2),
        (''t4'', ''c2'', 0), (''t5'', ''c2'', 1)]"
    by (simp add: example_db_def example_task_def updateTask_def apply_update_def
        prisma_findUnique_def prisma_update_def Let_def)
  from generic_update_leaves_siblings[of "''c3''" example_db None "Some 0" "''c3''" "''b1''" "''t1''"
      "\<lparr>ut_title = None, ut_description = None, ut_columnId = Some ''c2'', ut_priority = None,
            ut_status = None, ut_dueDate = None, ut_position = Some 1\<rparr>"]
  have c: "filter (\<lambda>r. col_id r \<noteq> ''c3'') (columns (fst (updateColumn example_db ''c3'' None (Some 0))))
     = filter (\<lambda>r. col_id r \<noteq> ''c3'') (columns example_db)"
    by (rule conjunct1)
  from a b c show ?thesis by (intro conjI)
qed

section \<open>Magic links are used once\<close>

lemma includes_magic:
  "str_includes ''Magic link has expired'' ''expired''"
  "str_includes ''Magic link has already been used'' ''used''"
  "str_includes ''Invalid or expired magic link'' ''expired''"
  by code_simp+

lemma user_create_links: "user_create u s = Inr s1 \<Longrightarrow> magicLinks s1 = magicLinks s"
  by (auto simp: user_create_def split: if_splits)

lemma verify_try_success:
  assumes "verify_try e s tok = (s', Inr r)"
  shows "\<exists>ml. prisma_findUnique (\<lambda>m. ml_token m = tok) (magicLinks s) = Some ml
           \<and> \<not> now e > ml_expiresAt ml \<and> ml_usedAt ml = None
           \<and> magicLinks s' = prisma_update (\<lambda>m. ml_id m = ml_id ml)
                                (\<lambda>m. m\<lparr>ml_usedAt := Some (now e)\<rparr>) (magicLinks s)"
proof (cases "prisma_findUnique (\<lambda>m. ml_token m = tok) (magicLinks s)")
  case None
  with assms show ?thesis by (simp add: verify_try_def)
next
  case (Some ml)
  from assms Some have ne: "\<not> now e > ml_expiresAt ml"
    by (auto simp: verify_try_def split: if_splits)
  from assms Some ne have nu: "ml_usedAt ml = None"
    by (auto simp: verify_try_def split: if_splits)
  from assms Some ne nu
  have "magicLinks s' = prisma_update (\<lambda>m. ml_id m = ml_id ml)
                                (\<lambda>m. m\<lparr>ml_usedAt := Some (now e)\<rparr>) (magicLinks s)"
    by (auto simp: verify_try_def Let_def dest!: user_create_links
        split: option.splits sum.splits prod.splits)
  with Some ne nu show ?thesis by simp
qed

lemma verify_used_or_expired:
  assumes "tok \<noteq> []" "prisma_findUnique (\<lambda>m. ml_token m = tok) (magicLinks s) = Some ml"
  shows "now e > ml_expiresAt ml \<Longrightarrow>
          verifyMagicLink e s (Some tok) =
            (s\<lparr>magicLinks := prisma_delete (\<lambda>m. ml_id m = ml_id ml) (magicLinks s)\<rparr>,
             Inl (ApiError 401 ''Magic link has expired''))"
    and "\<not> now e > ml_expiresAt ml \<Longrightarrow> ml_usedAt ml \<noteq> None \<Longrightarrow>
          verifyMagicLink e s (Some tok) = (s, Inl (ApiError 401 ''Magic link has already been used''))"
  using assms
  by (simp_all add: verifyMagicLink_def verify_try_def falsy_def createError_def exn_message_def
      errorHandler_def includes_magic)

text \<open>
  Claim C9, as amended. A magic link whose time of expiry has passed is answered with
  401 and deleted, used or not. A link that has not expired and whose \<open>usedAt\<close> is set
  is answered with 401, no token is issued and the store is unchanged. A successful
  verification sets \<open>usedAt\<close> of the link, and every later verification of the same
  token, at any time and in any environment, is answered with 401.
\<close>

theorem magic_link_single_use:
  "(tok \<noteq> [] \<and> prisma_findUnique (\<lambda>m. ml_token m = tok) (magicLinks s) = Some ml \<longrightarrow>
       (now e > ml_expiresAt ml \<longrightarrow>
          verifyMagicLink e s (Some tok) =
            (s\<lparr>magicLinks := prisma_delete (\<lambda>m. ml_id m = ml_id ml) (magicLinks s)\<rparr>,
             Inl (ApiError 401 ''Magic link has expired'')))
     \<and> (\<not> now e > ml_expiresAt ml \<and> ml_usedAt ml \<noteq> None \<longrightarrow>
          verifyMagicLink e s (Some tok) =
            (s, Inl (ApiError 401 ''Magic link has already been used''))))
   \<and> (verifyMagicLink e s (Some tok) = (s', Inr r) \<longrightarrow>
        (\<exists>ml'. prisma_findUnique (\<lambda>m. ml_token m = tok) (magicLinks s') = Some ml'
               \<and> ml_usedAt ml' = Some (now e))
      \<and> (\<exists>msg. snd (verifyMagicLink e2 s' (Some tok)) = Inl (ApiError 401 msg)))"
proof (intro conjI impI)
  assume a: "tok \<noteq> [] \<and> prisma_findUnique (\<lambda>m. ml_token m = tok) (magicLinks s) = Some ml"
  {
    assume "now e > ml_expiresAt ml"
    with a show "verifyMagicLink e s (Some tok) =
            (s\<lparr>magicLinks := prisma_delete (\<lambda>m. ml_id m = ml_id ml) (magicLinks s)\<rparr>,
             Inl (ApiError 401 ''Magic link has expired''))"
      by (intro verify_used_or_expired(1)) auto
  }
  {
    assume "\<not> now e > ml_expiresAt ml \<and> ml_usedAt ml \<noteq> None"
    with a show "verifyMagicLink e s (Some tok) =
            (s, Inl (ApiError 401 ''Magic link has already been used''))"
      by (intro verify_used_or_expired(2)) auto
  }
next
  assume v: "verifyMagicLink e s (Some tok) = (s', Inr r)"
  then have tok: "tok \<noteq> []"
    by (auto simp: verifyMagicLink_def falsy_def split: if_splits)
  with v have "verify_try e s tok = (s', Inr r)"
    by (auto simp: verifyMagicLink_def falsy_def split: if_splits prod.splits sum.splits)
  from verify_try_success[OF this] obtain ml where
    f: "prisma_findUnique (\<lambda>m. ml_token m = tok) (magicLinks s) = Some ml"
    and l: "magicLinks s' = prisma_update (\<lambda>m. ml_id m = ml_id ml)
                                (\<lambda>m. m\<lparr>ml_usedAt := Some (now e)\<rparr>) (magicLinks s)"
    by blast
  have f': "prisma_findUnique (\<lambda>m. ml_token m = tok) (magicLinks s')
            = Some (ml\<lparr>ml_usedAt := Some (now e)\<rparr>)"
    unfolding l prisma_update_def prisma_findUnique_def
    using f by (simp add: find_map prisma_findUnique_def)
  then show "\<exists>ml'. prisma_findUnique (\<lambda>m. ml_token m = tok) (magicLinks s') = Some ml'
               \<and> ml_usedAt ml' = Some (now e)"
    by simp
  show "\<exists>msg. snd (verifyMagicLink e2 s' (Some tok)) = Inl (ApiError 401 msg)"
  proof (cases "now e2 > ml_expiresAt (ml\<lparr>ml_usedAt := Some (now e)\<rparr>)")
    case True
    from verify_used_or_expired(1)[OF tok f' True] show ?thesis by simp
  next
    case False
    from verify_used_or_expired(2)[OF tok f' False] show ?thesis by simp
  qed
qed

theorem magic_link_single_use_witness:
  "prisma_findUnique (\<lambda>m. ml_token m = ''abc'') (magicLinks used_auth)
     = Some (example_link\<lparr>ml_usedAt := Some 5\<rparr>)
   \<and> verifyMagicLink example_env used_auth (Some ''abc'')
     = (used_auth, Inl (ApiError 401 ''Magic link has already been used''))
   \<and> verifyMagicLink late_env example_auth (Some ''abc'')
     = (example_auth\<lparr>magicLinks := []\<rparr>, Inl (ApiError 401 ''Magic link has expired''))
   \<and> verifyMagicLink example_env example_auth (Some ''abc'')
     = (\<lparr>users = [\<lparr>user_id = ''u1'', user_email = ''ann@example.org'', user_name = None\<rparr>],
         magicLinks = [example_link\<lparr>ml_usedAt := Some 500\<rparr>]\<rparr>,
        Inr (Response 200 ''Authentication successful''
              (Some (\<lparr>user_id = ''u1'', user_email = ''ann@example.org'', user_name = None\<rparr>,
                     Signed ''u1'' ''ann@example.org'' ''secret''))))
   \<and> snd (verifyMagicLink late_env
            (fst (verifyMagicLink example_env example_auth (Some ''abc''))) (Some ''abc''))
     = Inl (ApiError 401 ''Magic link has expired'')"
proof -
  have t: "''abc'' \<noteq> []" by simp
  have f: "prisma_findUnique (\<lambda>m. ml_token m = ''abc'') (magicLinks used_auth)
     = Some (example_link\<lparr>ml_usedAt := Some 5\<rparr>)"
    by code_simp
  have n: "\<not> now example_env > ml_expiresAt (example_link\<lparr>ml_usedAt := Some 5\<rparr>)"
    by code_simp
  have u: "ml_usedAt (example_link\<lparr>ml_usedAt := Some 5\<rparr>) \<noteq> None" by simp
  from magic_link_single_use[of "''abc''" used_auth "example_link\<lparr>ml_usedAt := Some 5\<rparr>"
      example_env used_auth "Response 200 [] None" example_env] t f n u
  have a: "verifyMagicLink example_env used_auth (Some ''abc'')
     = (used_auth, Inl (ApiError 401 ''Magic link has already been used''))"
    by blast
  have b: "verifyMagicLink late_env example_auth (Some ''abc'')
     = (example_auth\<lparr>magicLinks := []\<rparr>, Inl (ApiError 401 ''Magic link has expired''))"
    by code_simp
  have c: "verifyMagicLink example_env example_auth (Some ''abc'')
     = (\<lparr>users = [\<lparr>user_id = ''u1'', user_email = ''ann@example.org'', user_name = None\<rparr>],
         magicLinks = [example_link\<lparr>ml_usedAt := Some 500\<rparr>]\<rparr>,
        Inr (Response 200 ''Authentication successful''
              (Some (\<lparr>user_id = ''u1'', user_email = ''ann@example.org'', user_name = None\<rparr>,
                     Signed ''u1'' ''ann@example.org'' ''secret''))))"
    by code_simp
  have d: "snd (verifyMagicLink late_env
            (fst (verifyMagicLink example_env example_auth (Some ''abc''))) (Some ''abc''))
     = Inl (ApiError 401 ''Magic link has expired'')"
    by code_simp
  from f a b c d show ?thesis by (intro conjI)
qed

text \<open>
  Claim C9 as stated fails for a used link that has also expired: the expiry is checked
  first, so the link is deleted. The store changes although \<open>usedAt\<close> is set.
\<close>

theorem magic_link_used_and_expired_counterexample:
  "prisma_findUnique (\<lambda>m. ml_token m = ''abc'') (magicLinks used_auth)
     = Some (example_link\<lparr>ml_usedAt := Some 5\<rparr>)
   \<and> verifyMagicLink late_env used_auth (Some ''abc'')
     = (used_auth\<lparr>magicLinks := []\<rparr>, Inl (ApiError 401 ''Magic link has expired''))
   \<and> fst (verifyMagicLink late_env used_auth (Some ''abc'')) \<noteq> used_auth"
  by code_simp

section \<open>Login with the fixed credentials\<close>

lemma errorHandler_createError:
  "c \<noteq> 0 \<Longrightarrow> c \<noteq> 500 \<Longrightarrow> errorHandler e (createError m c) = ApiError c m"
  "errorHandler e (createError m 500)
     = ApiError 500 (if NODE_ENV e = Some ''production'' then ''Something went wrong'' else m)"
  by (simp_all add: errorHandler_def createError_def)

lemma includes_invalid: "str_includes ''Invalid email or password'' ''Invalid email or password''"
  by code_simp

lemma includes_jwt:
  "\<not> str_includes ''JWT_SECRET is not defined in environment variables'' ''Invalid email or password''"
  by code_simp

lemma ascii_literals:
  "\<forall>u\<in>set (js ''admin@kanban.com''). u < 128"
  "map ascii_lower (js ''admin@kanban.com'') = js ''admin@kanban.com''"
  by code_simp+

lemma ascii_lower_small: "ascii_lower u < 128 \<longleftrightarrow> u < 128"
  by (auto simp: ascii_lower_def)

lemma equal_ascii_units:
  assumes "equal_ignoring_ascii_case a b" "\<forall>u\<in>set b. u < 128"
  shows "\<forall>u\<in>set a. u < 128"
proof
  fix u assume "u \<in> set a"
  then have "ascii_lower u \<in> set (map ascii_lower a)" by simp
  with assms(1) have "ascii_lower u \<in> set (map ascii_lower b)"
    by (simp only: equal_ignoring_ascii_case_def)
  then obtain v where "v \<in> set b" "ascii_lower u = ascii_lower v" by auto
  with assms(2) have "ascii_lower u < 128" by (simp add: ascii_lower_small)
  then show "u < 128" by (simp add: ascii_lower_small)
qed

lemma lower_on_ascii:
  assumes H: "\<forall>t. (\<forall>u\<in>set t. u < 128) \<longrightarrow> lower t = map ascii_lower t"
  shows "equal_ignoring_ascii_case email (js ''admin@kanban.com'')
           \<Longrightarrow> lower email = lower (js ''admin@kanban.com'')"
    and "\<forall>u\<in>set email. u < 128 \<Longrightarrow>
           (lower email = lower (js ''admin@kanban.com''))
           = equal_ignoring_ascii_case email (js ''admin@kanban.com'')"
proof -
  from H ascii_literals(1) have t: "lower (js ''admin@kanban.com'') = map ascii_lower (js ''admin@kanban.com'')"
    by blast
  {
    assume c: "equal_ignoring_ascii_case email (js ''admin@kanban.com'')"
    from equal_ascii_units[OF c ascii_literals(1)] H have "lower email = map ascii_lower email"
      by blast
    with c t show "lower email = lower (js ''admin@kanban.com'')"
      by (simp only: equal_ignoring_ascii_case_def)
  }
  {
    assume "\<forall>u\<in>set email. u < 128"
    with H have "lower email = map ascii_lower email" by blast
    with t show "(lower email = lower (js ''admin@kanban.com''))
           = equal_ignoring_ascii_case email (js ''admin@kanban.com'')"
      by (simp only: equal_ignoring_ascii_case_def)
  }
qed

lemma sample_on_ascii:
  "\<forall>t. (\<forall>u\<in>set t. u < 128) \<longrightarrow> toLowerCase_sample t = map ascii_lower t"
  by (auto simp: toLowerCase_sample_def)

lemma hardcoded_js:
  "js HARDCODED_EMAIL = js ''admin@kanban.com''" "js HARDCODED_PASSWORD = js ''admin123''"
  by (simp_all add: HARDCODED_EMAIL_def HARDCODED_PASSWORD_def)

lemma login_rejects:
  assumes "email \<noteq> []" "emailRegex_test email" "password \<noteq> []"
    and "\<not> (lower email = lower (js ''admin@kanban.com'') \<and> password = js ''admin123'')"
  shows "login lower e s (Some email) (Some password)
         = (s, Inl (ApiError 401 ''Invalid email or password''))"
proof -
  from assms(4)
  have "login_try lower e s email password = (s, Inl (createError ''Invalid email or password'' 401))"
    unfolding login_try_def hardcoded_js by auto
  with assms(1-3) show ?thesis
    by (simp add: login_def falsy_def errorHandler_createError includes_invalid)
       (simp add: createError_def exn_message_def includes_invalid errorHandler_def)
qed

lemma login_try_accepts:
  assumes "lower email = lower (js ''admin@kanban.com'')" "password = js ''admin123''"
  shows "\<exists>s1 u. u \<in> set (users s1) \<and> user_email u = ''admin@kanban.com'' \<and>
           login_try lower e s email password =
             (s1, if falsy (JWT_SECRET e)
                  then Inl (Exn None ''JWT_SECRET is not defined in environment variables'')
                  else Inr (Response 200 ''Login successful''
                         (Some (u, Signed (user_id u) ''admin@kanban.com'' (the (JWT_SECRET e))))))"
proof -
  from assms have c: "lower email = lower (js HARDCODED_EMAIL)" "password = js HARDCODED_PASSWORD"
    by (simp_all only: hardcoded_js)
  show ?thesis
  proof (cases "prisma_findUnique (\<lambda>u. user_email u = HARDCODED_EMAIL) (users s)")
    case None
    let ?u = "\<lparr>user_id = new_user_id e, user_email = HARDCODED_EMAIL, user_name = Some ''Admin User''\<rparr>"
    from None c have "login_try lower e s email password =
             (s\<lparr>users := users s @ [?u]\<rparr>, if falsy (JWT_SECRET e)
                  then Inl (Exn None ''JWT_SECRET is not defined in environment variables'')
                  else Inr (Response 200 ''Login successful''
                         (Some (?u, Signed (user_id ?u) ''admin@kanban.com'' (the (JWT_SECRET e))))))"
      by (simp add: login_try_def user_create_def prisma_create_def generateJWT_def Let_def)
         (simp add: HARDCODED_EMAIL_def)
    moreover have "?u \<in> set (users (s\<lparr>users := users s @ [?u]\<rparr>))" by simp
    moreover have "user_email ?u = ''admin@kanban.com''" by (simp add: HARDCODED_EMAIL_def)
    ultimately show ?thesis by blast
  next
    case (Some u)
    from findUnique_SomeD[OF Some] have u: "user_email u = ''admin@kanban.com''" "u \<in> set (users s)"
      by (simp_all add: HARDCODED_EMAIL_def)
    from Some c u have "login_try lower e s email password =
             (s, if falsy (JWT_SECRET e)
                  then Inl (Exn None ''JWT_SECRET is not defined in environment variables'')
                  else Inr (Response 200 ''Login successful''
                         (Some (u, Signed (user_id u) ''admin@kanban.com'' (the (JWT_SECRET e))))))"
      by (simp add: login_try_def generateJWT_def)
    with u show ?thesis by blast
  qed
qed

lemmas auth_eval = login_def login_try_def falsy_def js_def emailRegex_test_def match_char_def
  match_end_def not_space_or_at_def is_space_def toLowerCase_sample_def ascii_lower_def
  equal_ignoring_ascii_case_def kelvin_email_def
  HARDCODED_EMAIL_def HARDCODED_PASSWORD_def example_env_def unconfigured_env_def
  production_env_def example_auth_def example_link_def errorHandler_def createError_def
  exn_message_def generateJWT_def user_create_def prisma_findUnique_def prisma_create_def Let_def

text \<open>
  Claim C10, as amended. A login without email or without password, or with an email
  the format check rejects, is answered with 400 before the credentials are looked at.
  For a non-empty, format-valid email and a non-empty password, whatever the tables of
  \<open>toLowerCase\<close>: if the lower-cased email differs from the lower-cased
  \<open>admin@kanban.com\<close> or the password from \<open>admin123\<close>, the answer is 401 and nothing
  changes; otherwise the answer is 200 with a token and the user when a signing secret
  is configured, and 500 when it is not, with the message \<open>Failed to login\<close>, or
  \<open>Something went wrong\<close> in production. Where \<open>toLowerCase\<close> lower-cases ASCII
  strings letter by letter, every email equal to \<open>admin@kanban.com\<close> up to ASCII case
  passes the comparison, and an email of ASCII characters passes it only if it is equal
  to \<open>admin@kanban.com\<close> up to ASCII case.
\<close>

theorem login_decision:
  "(falsy email' \<or> falsy password' \<longrightarrow>
      login lower e s email' password' = (s, Inl (ApiError 400 ''Email and password are required'')))
   \<and> (\<not> falsy email' \<and> \<not> falsy password' \<and> \<not> emailRegex_test (the email') \<longrightarrow>
      login lower e s email' password' = (s, Inl (ApiError 400 ''Invalid email format'')))
   \<and> (email \<noteq> [] \<and> emailRegex_test email \<and> password \<noteq> [] \<longrightarrow>
       (\<not> (lower email = lower (js ''admin@kanban.com'') \<and> password = js ''admin123'') \<longrightarrow>
          login lower e s (Some email) (Some password)
            = (s, Inl (ApiError 401 ''Invalid email or password'')))
       \<and> (lower email = lower (js ''admin@kanban.com'') \<and> password = js ''admin123''
            \<and> \<not> falsy (JWT_SECRET e) \<longrightarrow>
          (\<exists>s1 u. login lower e s (Some email) (Some password) =
             (s1, Inr (Response 200 ''Login successful''
                        (Some (u, Signed (user_id u) ''admin@kanban.com'' (the (JWT_SECRET e))))))
             \<and> u \<in> set (users s1) \<and> user_email u = ''admin@kanban.com''))
       \<and> (lower email = lower (js ''admin@kanban.com'') \<and> password = js ''admin123''
            \<and> falsy (JWT_SECRET e) \<longrightarrow>
          snd (login lower e s (Some email) (Some password))
            = Inl (ApiError 500 (if NODE_ENV e = Some ''production''
                                 then ''Something went wrong'' else ''Failed to login''))))
   \<and> ((\<forall>t. (\<forall>u\<in>set t. u < 128) \<longrightarrow> lower t = map ascii_lower t) \<longrightarrow>
        (equal_ignoring_ascii_case email (js ''admin@kanban.com'') \<longrightarrow>
           lower email = lower (js ''admin@kanban.com''))
      \<and> ((\<forall>u\<in>set email. u < 128) \<longrightarrow>
           (lower email = lower (js ''admin@kanban.com''))
           = equal_ignoring_ascii_case email (js ''admin@kanban.com'')))"
proof (intro conjI impI)
  assume "falsy email' \<or> falsy password'"
  then show "login lower e s email' password'
             = (s, Inl (ApiError 400 ''Email and password are required''))"
    by (simp add: login_def errorHandler_createError)
next
  assume "\<not> falsy email' \<and> \<not> falsy password' \<and> \<not> emailRegex_test (the email')"
  then show "login lower e s email' password' = (s, Inl (ApiError 400 ''Invalid email format''))"
    by (simp add: login_def errorHandler_createError)
next
  assume a: "email \<noteq> [] \<and> emailRegex_test email \<and> password \<noteq> []"
    and b: "\<not> (lower email = lower (js ''admin@kanban.com'') \<and> password = js ''admin123'')"
  from a show "login lower e s (Some email) (Some password)
               = (s, Inl (ApiError 401 ''Invalid email or password''))"
    by (intro login_rejects[OF _ _ _ b]) simp_all
next
  assume a: "email \<noteq> [] \<and> emailRegex_test email \<and> password \<noteq> []"
    and b: "lower email = lower (js ''admin@kanban.com'') \<and> password = js ''admin123''
            \<and> \<not> falsy (JWT_SECRET e)"
  from b login_try_accepts[of lower email password e s] obtain s1 u where
    u: "u \<in> set (users s1)" "user_email u = ''admin@kanban.com''"
    and t: "login_try lower e s email password =
             (s1, Inr (Response 200 ''Login successful''
                         (Some (u, Signed (user_id u) ''admin@kanban.com'' (the (JWT_SECRET e))))))"
    by auto
  from a t have "login lower e s (Some email) (Some password) =
             (s1, Inr (Response 200 ''Login successful''
                        (Some (u, Signed (user_id u) ''admin@kanban.com'' (the (JWT_SECRET e))))))"
    by (simp add: login_def falsy_def)
  with u show "\<exists>s1 u. login lower e s (Some email) (Some password) =
             (s1, Inr (Response 200 ''Login successful''
                        (Some (u, Signed (user_id u) ''admin@kanban.com'' (the (JWT_SECRET e))))))
             \<and> u \<in> set (users s1) \<and> user_email u = ''admin@kanban.com''"
    by blast
next
  assume a: "email \<noteq> [] \<and> emailRegex_test email \<and> password \<noteq> []"
    and b: "lower email = lower (js ''admin@kanban.com'') \<and> password = js ''admin123''
            \<and> falsy (JWT_SECRET e)"
  from b login_try_accepts[of lower email password e s] obtain s1 where
    t: "login_try lower e s email password =
             (s1, Inl (Exn None ''JWT_SECRET is not defined in environment variables''))"
    by auto
  from a t show "snd (login lower e s (Some email) (Some password))
            = Inl (ApiError 500 (if NODE_ENV e = Some ''production''
                                 then ''Something went wrong'' else ''Failed to login''))"
    by (simp add: login_def falsy_def exn_message_def includes_jwt errorHandler_createError)
next
  assume H: "\<forall>t. (\<forall>u\<in>set t. u < 128) \<longrightarrow> lower t = map ascii_lower t"
  {
    assume "equal_ignoring_ascii_case email (js ''admin@kanban.com'')"
    then show "lower email = lower (js ''admin@kanban.com'')"
      by (rule lower_on_ascii(1)[OF H])
  }
  {
    assume "\<forall>u\<in>set email. u < 128"
    then show "(lower email = lower (js ''admin@kanban.com''))
           = equal_ignoring_ascii_case email (js ''admin@kanban.com'')"
      by (rule lower_on_ascii(2)[OF H])
  }
qed

theorem login_decision_witness:
  "login toLowerCase_sample example_env example_auth None (Some (js ''admin123''))
     = (example_auth, Inl (ApiError 400 ''Email and password are required''))
   \<and> login toLowerCase_sample example_env example_auth (Some (js ''admin.kanban.com'')) (Some (js ''admin123''))
     = (example_auth, Inl (ApiError 400 ''Invalid email format''))
   \<and> emailRegex_test (js ''Admin@Kanban.COM'')
   \<and> equal_ignoring_ascii_case (js ''Admin@Kanban.COM'') (js ''admin@kanban.com'')
   \<and> toLowerCase_sample (js ''Admin@Kanban.COM'') = toLowerCase_sample (js ''admin@kanban.com'')
   \<and> login toLowerCase_sample example_env example_auth (Some (js ''Admin@Kanban.COM'')) (Some (js ''Admin123''))
     = (example_auth, Inl (ApiError 401 ''Invalid email or password''))
   \<and> snd (login toLowerCase_sample example_env example_auth (Some (js ''Admin@Kanban.COM'')) (Some (js ''admin123'')))
     = Inr (Response 200 ''Login successful''
             (Some (\<lparr>user_id = ''u1'', user_email = ''admin@kanban.com'',
                      user_name = Some ''Admin User''\<rparr>,
                    Signed ''u1'' ''admin@kanban.com'' ''secret'')))
   \<and> snd (login toLowerCase_sample unconfigured_env example_auth (Some (js ''Admin@Kanban.COM'')) (Some (js ''admin123'')))
     = Inl (ApiError 500 ''Failed to login'')
   \<and> snd (login toLowerCase_sample production_env example_auth (Some (js ''Admin@Kanban.COM'')) (Some (js ''admin123'')))
     = Inl (ApiError 500 ''Something went wrong'')"
proof -
  have h: "js ''Admin@Kanban.COM'' \<noteq> []" "emailRegex_test (js ''Admin@Kanban.COM'')"
    "js ''Admin123'' \<noteq> []"
    "equal_ignoring_ascii_case (js ''Admin@Kanban.COM'') (js ''admin@kanban.com'')"
    "\<not> (toLowerCase_sample (js ''Admin@Kanban.COM'') = toLowerCase_sample (js ''admin@kanban.com'')
        \<and> js ''Admin123'' = js ''admin123'')"
    by (simp_all add: auth_eval)
  note th = login_decision[of None "Some (js ''admin123'')" toLowerCase_sample example_env
      example_auth "js ''Admin@Kanban.COM''" "js ''Admin123''"]
  from th h
  have a: "login toLowerCase_sample example_env example_auth (Some (js ''Admin@Kanban.COM'')) (Some (js ''Admin123''))
     = (example_auth, Inl (ApiError 401 ''Invalid email or password''))"
    by blast
  from th sample_on_ascii h(4)
  have l: "toLowerCase_sample (js ''Admin@Kanban.COM'') = toLowerCase_sample (js ''admin@kanban.com'')"
    by blast
  have b: "login toLowerCase_sample example_env example_auth None (Some (js ''admin123''))
     = (example_auth, Inl (ApiError 400 ''Email and password are required''))"
    by (simp add: auth_eval)
  have c: "login toLowerCase_sample example_env example_auth (Some (js ''admin.kanban.com'')) (Some (js ''admin123''))
     = (example_auth, Inl (ApiError 400 ''Invalid email format''))"
    by (simp add: auth_eval)
  have d: "snd (login toLowerCase_sample example_env example_auth (Some (js ''Admin@Kanban.COM'')) (Some (js ''admin123'')))
     = Inr (Response 200 ''Login successful''
             (Some (\<lparr>user_id = ''u1'', user_email = ''admin@kanban.com'',
                      user_name = Some ''Admin User''\<rparr>,
                    Signed ''u1'' ''admin@kanban.com'' ''secret'')))"
    by (simp add: auth_eval)
  have e: "snd (login toLowerCase_sample unconfigured_env example_auth (Some (js ''Admin@Kanban.COM'')) (Some (js ''admin123'')))
     = Inl (ApiError 500 ''Failed to login'')"
    by (simp add: auth_eval)
  have f: "snd (login toLowerCase_sample production_env example_auth (Some (js ''Admin@Kanban.COM'')) (Some (js ''admin123'')))
     = Inl (ApiError 500 ''Something went wrong'')"
    by (simp add: auth_eval)
  from b c h(2) h(4) l a d e f show ?thesis by (intro conjI)
qed

text \<open>
  Claim C10 as stated fails in both directions. The email \<open>admin@\<close>, U+212A,
  \<open>anban.com\<close> is not equal to \<open>admin@kanban.com\<close> up to ASCII case, passes the format
  check and lower-cases to \<open>admin@kanban.com\<close>: with the right password it logs in.
  And when no signing secret is configured, the right credentials are answered with
  500, not with 200.
\<close>

theorem login_counterexample:
  "emailRegex_test kelvin_email
   \<and> \<not> equal_ignoring_ascii_case kelvin_email (js ''admin@kanban.com'')
   \<and> toLowerCase_sample kelvin_email = js ''admin@kanban.com''
   \<and> snd (login toLowerCase_sample example_env example_auth (Some kelvin_email) (Some (js ''admin123'')))
     = Inr (Response 200 ''Login successful''
             (Some (\<lparr>user_id = ''u1'', user_email = ''admin@kanban.com'',
                      user_name = Some ''Admin User''\<rparr>,
                    Signed ''u1'' ''admin@kanban.com'' ''secret'')))
   \<and> emailRegex_test (js ''admin@kanban.com'')
   \<and> equal_ignoring_ascii_case (js ''admin@kanban.com'') (js ''admin@kanban.com'')
   \<and> snd (login toLowerCase_sample unconfigured_env example_auth
            (Some (js ''admin@kanban.com'')) (Some (js ''admin123'')))
     = Inl (ApiError 500 ''Failed to login'')"
  by (simp add: auth_eval)

end
